theory Spec2Isabelle
  imports Complex_Main "HOL-Library.Log_Nat"
begin

section \<open>JavaScript values\<close>

text \<open>
  A JavaScript Number is modelled by the exact real value of the double, with the three
  non-finite values apart. Negative zero is identified with zero (none of the functions
  below divides by its argument).
\<close>

datatype jsnum = Fin real | NaN | PosInf | NegInf

subsection \<open>Rounding to a double\<close>

text \<open>
  A product or a quotient is the exact result rounded to the nearest double (IEEE 754
  binary64, as ECMAScript prescribes): to a multiple of the unit in the last place of the
  exact result, to the even multiple on a tie, and to an infinity from \<open>2^1024\<close> on.
  The unit in the last place of \<open>x\<close> is \<open>2^(e - 52)\<close> where \<open>2^e \<le> |x| < 2^(e + 1)\<close>, and
  \<open>2^(-1074)\<close> for the subnormal numbers. The exponent \<open>e\<close> is computed on integers;
  lemma \<open>ilog2_bounds\<close> below shows that it is the right one.
\<close>

definition ilog2 :: "real \<Rightarrow> int" where
  "ilog2 x =
     (if 1 \<le> \<bar>x\<bar> then int (floorlog 2 (nat \<lfloor>\<bar>x\<bar>\<rfloor>)) - 1
      else - int (floorlog 2 (nat \<lceil>1 / \<bar>x\<bar>\<rceil> - 1)))"

definition pow2 :: "int \<Rightarrow> real" where
  "pow2 k = (if 0 \<le> k then 2 ^ nat k else 1 / 2 ^ nat (- k))"

definition ulp :: "real \<Rightarrow> real" where
  "ulp x = pow2 (max (ilog2 x - 52) (- 1074))"

definition round_half_even :: "real \<Rightarrow> int" where
  "round_half_even y =
     (let n = \<lfloor>y\<rfloor> in
      if y - of_int n < 1 / 2 then n
      else if 1 / 2 < y - of_int n then n + 1
      else if even n then n else n + 1)"

definition to_double :: "real \<Rightarrow> jsnum" where
  "to_double x =
     (if x = 0 then Fin 0
      else let y = of_int (round_half_even (x / ulp x)) * ulp x
           in if 2 ^ 1024 \<le> \<bar>y\<bar> then (if 0 < x then PosInf else NegInf) else Fin y)"

datatype jsval = JNum jsnum | JStr string | JBool bool | JNull | JUndefined

datatype js_error = RangeError | TypeError | SyntaxError | InvalidStateError

text \<open>
  What the source leaves to the JavaScript engine is a parameter: the conversion of a
  string to a number (\<open>ToNumber\<close> on a string, and \<open>parseFloat\<close>), and
  \<open>Number::toString\<close>, which \<open>toFixed\<close> falls back to from \<open>10^21\<close> on.
\<close>

record engine =
  NumberToString :: "real \<Rightarrow> string"
  StringToNumber :: "string \<Rightarrow> jsnum"
  parseFloat_str :: "string \<Rightarrow> jsnum"

text \<open>An engine for the worked examples, which never consult it.\<close>

definition example_engine :: engine where
  "example_engine =
     \<lparr>NumberToString = (\<lambda>r. []), StringToNumber = (\<lambda>s. NaN), parseFloat_str = (\<lambda>s. NaN)\<rparr>"

fun truthy :: "jsval \<Rightarrow> bool" where
  "truthy (JNum (Fin x)) = (x \<noteq> 0)"
| "truthy (JNum NaN) = False"
| "truthy (JNum PosInf) = True"
| "truthy (JNum NegInf) = True"
| "truthy (JStr s) = (s \<noteq> [])"
| "truthy (JBool b) = b"
| "truthy JNull = False"
| "truthy JUndefined = False"

fun ToNumber :: "engine \<Rightarrow> jsval \<Rightarrow> jsnum" where
  "ToNumber E (JNum n) = n"
| "ToNumber E (JStr s) = StringToNumber E s"
| "ToNumber E (JBool b) = Fin (if b then 1 else 0)"
| "ToNumber E JNull = Fin 0"
| "ToNumber E JUndefined = NaN"

text \<open>\<open>n >= c\<close> and \<open>n <= c\<close> against a finite constant; every comparison with NaN is false.\<close>

fun num_ge :: "jsnum \<Rightarrow> real \<Rightarrow> bool" where
  "num_ge (Fin x) c = (c \<le> x)"
| "num_ge NaN c = False"
| "num_ge PosInf c = True"
| "num_ge NegInf c = False"

fun num_le :: "jsnum \<Rightarrow> real \<Rightarrow> bool" where
  "num_le (Fin x) c = (x \<le> c)"
| "num_le NaN c = False"
| "num_le PosInf c = False"
| "num_le NegInf c = True"

text \<open>\<open>n / c\<close> and \<open>n * c\<close> for a finite constant \<open>c > 0\<close>.\<close>

fun num_div :: "jsnum \<Rightarrow> real \<Rightarrow> jsnum" where
  "num_div (Fin x) c = to_double (x / c)"
| "num_div n c = n"

fun num_mul :: "jsnum \<Rightarrow> real \<Rightarrow> jsnum" where
  "num_mul (Fin x) c = to_double (x * c)"
| "num_mul n c = n"

fun Math_abs :: "jsnum \<Rightarrow> jsnum" where
  "Math_abs (Fin x) = Fin \<bar>x\<bar>"
| "Math_abs NaN = NaN"
| "Math_abs PosInf = PosInf"
| "Math_abs NegInf = PosInf"

subsection \<open>Number.prototype.toFixed\<close>

fun digits10 :: "nat \<Rightarrow> string" where
  "digits10 n =
     (if n < 10 then [''0123456789'' ! n]
      else digits10 (n div 10) @ [''0123456789'' ! (n mod 10)])"

declare digits10.simps [simp del]

definition pad0 :: "nat \<Rightarrow> string \<Rightarrow> string" where
  "pad0 w s = replicate (w - length s) CHR ''0'' @ s"

text \<open>
  For \<open>0 \<le> x < 10^21\<close>: the integer \<open>n\<close> with \<open>n / 10^f\<close> nearest to \<open>x\<close>, the larger
  one on a tie, printed with \<open>f\<close> digits after the point.
\<close>

definition fixed_digits :: "real \<Rightarrow> nat \<Rightarrow> string" where
  "fixed_digits x f =
     (let n = nat \<lfloor>x * 10 ^ f + 1 / 2\<rfloor>
      in if f = 0 then digits10 n
         else digits10 (n div 10 ^ f) @ ''.'' @ pad0 f (digits10 (n mod 10 ^ f)))"

fun toFixed :: "engine \<Rightarrow> jsnum \<Rightarrow> nat \<Rightarrow> js_error + string" where
  "toFixed E x d =
     (if 100 < d then Inl RangeError
      else case x of
        NaN \<Rightarrow> Inr ''NaN''
      | PosInf \<Rightarrow> Inr ''Infinity''
      | NegInf \<Rightarrow> Inr ''-Infinity''
      | Fin r \<Rightarrow>
          Inr (if 10 ^ 21 \<le> \<bar>r\<bar> then NumberToString E r
               else (if r < 0 then ''-'' else '''') @ fixed_digits \<bar>r\<bar> d))"

text \<open>\<open>v.toFixed(d)\<close> on a value that need not be a number: only a Number has the method.\<close>

fun toFixed_of :: "engine \<Rightarrow> jsval \<Rightarrow> nat \<Rightarrow> js_error + string" where
  "toFixed_of E (JNum n) d = toFixed E n d"
| "toFixed_of E v d = Inl TypeError"

text \<open>The template literal around a \<open>toFixed\<close> call: the text is extended, an exception passes.\<close>

fun with_suffix :: "js_error + string \<Rightarrow> string \<Rightarrow> js_error + string" where
  "with_suffix (Inl e) s = Inl e"
| "with_suffix (Inr t) s = Inr (t @ s)"

fun as_str :: "js_error + string \<Rightarrow> js_error + jsval" where
  "as_str (Inl e) = Inl e"
| "as_str (Inr t) = Inr (JStr t)"

section \<open>Number formatting\<close>

text \<open>The default parameter \<open>decimals = 1\<close>: an argument left out is one decimal.\<close>

fun decimals_or_default :: "nat option \<Rightarrow> nat" where
  "decimals_or_default None = 1"
| "decimals_or_default (Some d) = d"

text \<open>\<open>formatUtils.number\<close> (dashboard.js): no type guard, the comparisons coerce.\<close>

definition formatUtils_number :: "engine \<Rightarrow> jsval \<Rightarrow> nat option \<Rightarrow> js_error + string" where
  "formatUtils_number E num decimals =
     (let d = decimals_or_default decimals in
      if num_ge (ToNumber E num) 1000000
        then with_suffix (toFixed E (num_div (ToNumber E num) 1000000) d) ''M''
      else if num_ge (ToNumber E num) 1000
        then with_suffix (toFixed E (num_div (ToNumber E num) 1000) d) ''k''
      else toFixed_of E num d)"

text \<open>\<open>Dashboard.formatNumber\<close> of the core module, version 1.1: a non-number is returned as it is.\<close>

fun formatNumber :: "engine \<Rightarrow> jsval \<Rightarrow> nat option \<Rightarrow> js_error + jsval" where
  "formatNumber E (JNum num) decimals =
     (let d = decimals_or_default decimals in
      as_str
       (if num_ge num 1000000000 then with_suffix (toFixed E (num_div num 1000000000) d) ''B''
        else if num_ge num 1000000 then with_suffix (toFixed E (num_div num 1000000) d) ''M''
        else if num_ge num 1000 then with_suffix (toFixed E (num_div num 1000) d) ''k''
        else toFixed E num d))"
| "formatNumber E v decimals = Inr v"

text \<open>
  \<open>Dashboard.formatNumber\<close> of the core module, version 1.0: one decimal always, the
  thresholds on the absolute value. \<open>parseFloat\<close> of a number is that number again.
\<close>

fun parseFloat :: "engine \<Rightarrow> jsval \<Rightarrow> jsnum" where
  "parseFloat E (JNum n) = n"
| "parseFloat E (JStr s) = parseFloat_str E s"
| "parseFloat E v = NaN"

definition formatNumber_v1 :: "engine \<Rightarrow> jsval \<Rightarrow> js_error + string" where
  "formatNumber_v1 E num =
     (if num = JNull \<or> num = JUndefined \<or> ToNumber E num = NaN then Inr ''0''
      else let absNum = Math_abs (ToNumber E num) in
        if num_ge absNum 1000000 then with_suffix (toFixed E (num_div (ToNumber E num) 1000000) 1) ''M''
        else if num_ge absNum 1000 then with_suffix (toFixed E (num_div (ToNumber E num) 1000) 1) ''k''
        else toFixed E (parseFloat E num) 1)"

section \<open>Percentages\<close>

text \<open>\<open>Dashboard.formatPercentage\<close> (core 1.1).\<close>

fun formatPercentage :: "engine \<Rightarrow> jsval \<Rightarrow> nat option \<Rightarrow> js_error + jsval" where
  "formatPercentage E (JNum v) decimals =
     as_str (with_suffix
       (toFixed E (if num_ge v 0 \<and> num_le v 1 then num_mul v 100 else v)
          (decimals_or_default decimals)) ''%'')"
| "formatPercentage E v decimals = Inr v"

text \<open>\<open>formatUtils.percentage\<close> (dashboard.js): no type guard.\<close>

definition formatUtils_percentage :: "engine \<Rightarrow> jsval \<Rightarrow> nat option \<Rightarrow> js_error + string" where
  "formatUtils_percentage E v decimals =
     with_suffix
       (if num_ge (ToNumber E v) 0 \<and> num_le (ToNumber E v) 1
          then toFixed E (num_mul (ToNumber E v) 100) (decimals_or_default decimals)
        else toFixed_of E v (decimals_or_default decimals)) ''%''"

section \<open>File sizes\<close>

text \<open>
  \<open>Math.floor(Math.log(x) / Math.log(1024))\<close> for a finite \<open>x > 0\<close>, computed on
  integers: the number of base-1024 digits of the integer part when \<open>x \<ge> 1\<close>, and of
  the reciprocal rounded up otherwise. Lemma \<open>floor_log1024_ilog\<close> below shows that
  this is the floor of the quotient of the exact logarithms. ECMAScript leaves the
  precision of \<open>Math.log\<close> to the engine: with a rounded logarithm the quotient can
  fall on the other side of an integer when \<open>x\<close> is next to a power of 1024, and the
  neighbouring unit is printed. Nothing proved below depends on the unit chosen there.
\<close>

definition ilog1024 :: "real \<Rightarrow> int" where
  "ilog1024 x =
     (if 1 \<le> x then int (floorlog 1024 (nat \<lfloor>x\<rfloor>)) - 1
      else - int (floorlog 1024 (nat \<lceil>1 / x\<rceil> - 1)))"

text \<open>
  The result of \<open>Math.floor\<close> is an integral Number or not finite. The logarithm of zero
  is \<open>-Infinity\<close>, that of a negative number is NaN.
\<close>

datatype jsint = Idx int | IdxNaN | IdxPosInf | IdxNegInf

fun Math_floor_log1024 :: "jsnum \<Rightarrow> jsint" where
  "Math_floor_log1024 (Fin x) =
     (if 0 < x then Idx (ilog1024 x) else if x = 0 then IdxNegInf else IdxNaN)"
| "Math_floor_log1024 NaN = IdxNaN"
| "Math_floor_log1024 PosInf = IdxPosInf"
| "Math_floor_log1024 NegInf = IdxNaN"

fun Math_pow1024 :: "jsint \<Rightarrow> jsnum" where
  "Math_pow1024 (Idx k) = Fin (if 0 \<le> k then 1024 ^ nat k else 1 / 1024 ^ nat (- k))"
| "Math_pow1024 IdxNaN = NaN"
| "Math_pow1024 IdxPosInf = PosInf"
| "Math_pow1024 IdxNegInf = Fin 0"

fun num_divide :: "jsnum \<Rightarrow> jsnum \<Rightarrow> jsnum" where
  "num_divide (Fin a) (Fin b) =
     (if b \<noteq> 0 then to_double (a / b)
      else if 0 < a then PosInf else if a < 0 then NegInf else NaN)"
| "num_divide (Fin a) PosInf = Fin 0"
| "num_divide (Fin a) NegInf = Fin 0"
| "num_divide PosInf (Fin b) = (if 0 \<le> b then PosInf else NegInf)"
| "num_divide NegInf (Fin b) = (if 0 \<le> b then NegInf else PosInf)"
| "num_divide a b = NaN"

definition sizes :: "string list" where
  "sizes = [''B'', ''KB'', ''MB'', ''GB'']"

text \<open>\<open>sizes[i]\<close> inside the template literal: off the array it prints as \<open>undefined\<close>.\<close>

fun size_name :: "jsint \<Rightarrow> string" where
  "size_name (Idx k) = (if 0 \<le> k \<and> k < 4 then sizes ! nat k else ''undefined'')"
| "size_name i = ''undefined''"

text \<open>The two lines after the guard, the same in both versions.\<close>

definition fileSize_scaled :: "engine \<Rightarrow> jsnum \<Rightarrow> js_error + string" where
  "fileSize_scaled E bytes =
     (let i = Math_floor_log1024 bytes
      in with_suffix (toFixed E (num_divide bytes (Math_pow1024 i)) 1) ('' '' @ size_name i))"

text \<open>
  Both formatters return their text together with the arguments on which \<open>Math.log\<close>
  was called, in order.
\<close>

text \<open>\<open>Dashboard.formatFileSize\<close> (core 1.1): the guard is \<open>!bytes\<close>.\<close>

definition formatFileSize :: "engine \<Rightarrow> jsval \<Rightarrow> (js_error + string) \<times> jsnum list" where
  "formatFileSize E bytes =
     (if \<not> truthy bytes then (Inr ''0 B'', [])
      else (fileSize_scaled E (ToNumber E bytes), [ToNumber E bytes]))"

text \<open>\<open>formatUtils.fileSize\<close> (dashboard.js): the guard is \<open>bytes === 0\<close>.\<close>

definition formatUtils_fileSize :: "engine \<Rightarrow> jsval \<Rightarrow> (js_error + string) \<times> jsnum list" where
  "formatUtils_fileSize E bytes =
     (if bytes = JNum (Fin 0) then (Inr ''0 B'', [])
      else (fileSize_scaled E (ToNumber E bytes), [ToNumber E bytes]))"

section \<open>Network requests\<close>

text \<open>
  One call of \<open>fetch\<close> either rejects (no connection) or resolves with a response;
  \<open>response.json()\<close> either rejects (the body is not JSON) or resolves with the parsed
  value. \<open>response.ok\<close> is true for the statuses 200 to 299.
\<close>

datatype 'a body = NotJson string | Json 'a

record 'a http_response =
  status :: nat
  statusText :: string
  body :: "'a body"

datatype 'a fetch_outcome = Rejects string | Responds "'a http_response"

definition ok :: "'a http_response \<Rightarrow> bool" where
  "ok r = (200 \<le> status r \<and> status r \<le> 299)"

section \<open>The retrying request helper (dashboard.js)\<close>

record dashboard_config =
  apiBaseUrl :: string
  refreshInterval :: nat
  animationDuration :: nat
  maxRetries :: nat

definition DASHBOARD_CONFIG :: dashboard_config where
  "DASHBOARD_CONFIG =
     \<lparr>apiBaseUrl = [], refreshInterval = 30000, animationDuration = 500, maxRetries = 3\<rparr>"

record dashboardState =
  isConnected :: bool
  dataLoaded :: bool
  currentTab :: string
  lastUpdate :: "string option"
  retryCount :: nat

definition initial_dashboardState :: dashboardState where
  "initial_dashboardState =
     \<lparr>isConnected = False, dataLoaded = False, currentTab = ''overview'',
      lastUpdate = None, retryCount = 0\<rparr>"

text \<open>
  The body of the \<open>try\<close> block: the message of the exception it raises, or the parsed
  data it returns.
\<close>

definition attempt :: "'a fetch_outcome \<Rightarrow> string + 'a" where
  "attempt out =
     (case out of
        Rejects msg \<Rightarrow> Inl msg
      | Responds r \<Rightarrow>
          if \<not> ok r then Inl (''HTTP '' @ digits10 (status r) @ '': '' @ statusText r)
          else (case body r of NotJson msg \<Rightarrow> Inl msg | Json d \<Rightarrow> Inr d))"

text \<open>
  The promise settles in one of three ways: it resolves with the data, it rejects with
  the one error built after the last failure (the configured maximum and the message of
  that failure), or the loop is left without a \<open>return\<close> and it resolves with
  \<open>undefined\<close>.
\<close>

datatype 'a settled = Resolved 'a | Rejected nat string | ResolvedUndefined

record 'a request_result =
  settled :: "'a settled"
  state_after :: dashboardState
  delays :: "nat list"

text \<open>
  The \<open>while\<close> loop. \<open>net k\<close> is the outcome of the call of \<open>fetch\<close> made after \<open>k\<close>
  earlier calls; \<open>ds\<close> collects the delays waited so far, in milliseconds.
\<close>

function request_loop ::
  "dashboard_config \<Rightarrow> (nat \<Rightarrow> 'a fetch_outcome) \<Rightarrow> nat \<Rightarrow> dashboardState \<Rightarrow> nat list
     \<Rightarrow> 'a request_result" where
  "request_loop cfg net rc st ds =
     (if rc \<le> maxRetries cfg then
        (case attempt (net rc) of
           Inr d \<Rightarrow> \<lparr>settled = Resolved d, state_after = st\<lparr>retryCount := 0\<rparr>, delays = ds\<rparr>
         | Inl msg \<Rightarrow>
             if rc + 1 > maxRetries cfg
             then \<lparr>settled = Rejected (maxRetries cfg) msg,
                   state_after = st\<lparr>retryCount := rc + 1\<rparr>, delays = ds\<rparr>
             else request_loop cfg net (rc + 1) (st\<lparr>retryCount := rc + 1\<rparr>)
                    (ds @ [2 ^ (rc + 1) * 1000]))
      else \<lparr>settled = ResolvedUndefined, state_after = st, delays = ds\<rparr>)"
  by pat_completeness auto
termination
  by (relation "measure (\<lambda>(cfg, net, rc, st, ds). maxRetries cfg + 1 - rc)") auto

declare request_loop.simps [simp del]

definition request :: "dashboard_config \<Rightarrow> (nat \<Rightarrow> 'a fetch_outcome) \<Rightarrow> dashboardState
    \<Rightarrow> 'a request_result" where
  "request cfg net st = request_loop cfg net 0 st []"

text \<open>A call of \<open>fetch\<close> fails when the \<open>try\<close> block raises.\<close>

definition fails :: "'a fetch_outcome \<Rightarrow> bool" where
  "fails out = (case attempt out of Inl msg \<Rightarrow> True | Inr d \<Rightarrow> False)"

text \<open>
  Two networks for the worked examples: one that drops the first two calls and then
  answers, and one whose server always answers with status 500.
\<close>

definition flaky_network :: "nat \<Rightarrow> string fetch_outcome" where
  "flaky_network k =
     (if k < 2 then Rejects ''Failed to fetch''
      else Responds \<lparr>status = 200, statusText = ''OK'', body = Json ''data''\<rparr>)"

definition failing_network :: "nat \<Rightarrow> string fetch_outcome" where
  "failing_network k =
     Responds \<lparr>status = 500, statusText = ''Internal Server Error'', body = NotJson ''Unexpected token''\<rparr>"

section \<open>The page: document, shared state, console and network\<close>

text \<open>
  An element of the document, with the properties the modules read or write. The markup
  put into \<open>innerHTML\<close> is named, not spelled out. \<open>dataset_loaded\<close> is
  \<open>dataset.loaded\<close>, \<open>None\<close> when the attribute is absent. \<open>ancestors\<close> are the ids
  of the elements that the element lies in, the nearest first; elements without an id
  are not recorded.
\<close>

record element =
  el_type :: string
  el_name :: string
  value_attr :: string
  el_value :: string
  checked :: bool
  textContent :: string
  innerHTML :: string
  dataset_loaded :: "string option"
  ancestors :: "string list"

text \<open>
  The document holds, for each id, the element that \<open>getElementById\<close> answers with.
\<close>

type_synonym document = "string \<rightharpoonup> element"

text \<open>The layers of the Leaflet map. Only circle markers and heat layers are overlays here.\<close>

datatype layer =
    TileLayer string
  | CircleMarker real real string string
  | HeatLayer "(real \<times> real \<times> real) list"

fun is_CircleMarker :: "layer \<Rightarrow> bool" where
  "is_CircleMarker (CircleMarker la lo c p) = True"
| "is_CircleMarker l = False"

fun is_HeatLayer :: "layer \<Rightarrow> bool" where
  "is_HeatLayer (HeatLayer ps) = True"
| "is_HeatLayer l = False"

record leaflet_map =
  layers :: "layer list"
  center :: "real \<times> real"
  zoom :: real

text \<open>
  A chart as the backend sends it, and what \<open>Plotly.newPlot\<close> receives and the state
  keeps for resizing: the data, the layout with \<open>autosize\<close> set, the responsive
  configuration.
\<close>

record chart_data =
  traces :: "string list"
  layout :: string

record chart_entry =
  entry_data :: "string list"
  entry_layout :: string
  entry_autosize :: bool
  entry_responsive :: bool

text \<open>
  \<open>Dashboard.state\<close> of the core module: the fields of \<open>window.dashboardState\<close> and
  the widgets (the socket and the raw data play no part here).
\<close>

record Dashboard_state = dashboardState +
  map_widget :: "leaflet_map option"
  charts :: "string \<rightharpoonup> chart_entry"
  cache :: "string \<rightharpoonup> string"

datatype console_entry = Log string | Warn string | Error string string

text \<open>
  Everything a handler can touch: the elements of the document by id, the \<open>data-theme\<close>
  attribute of the root element, the shared state, what Plotly has drawn in each element,
  the console, and the URLs requested so far.
\<close>

record world =
  dom :: document
  data_theme :: "string option"
  state :: Dashboard_state
  plots :: "string \<rightharpoonup> chart_entry"
  console :: "console_entry list"
  requests :: "string list"

text \<open>
  The response envelope \<open>{success, ...}\<close>: the truth value of \<open>success\<close> (false when
  the field is missing) and the payload field of the endpoint, if present. A body that
  parses to \<open>null\<close> is \<open>None\<close>.
\<close>

record 'p envelope =
  success :: bool
  payload :: "'p option"

type_synonym 'p api = "string \<Rightarrow> 'p envelope option fetch_outcome"

section \<open>The maps module\<close>

record marker_data =
  lat :: real
  lng :: real
  color :: string
  popup :: string

record map_data =
  markers :: "marker_data list option"
  md_center :: "(real \<times> real) option"
  md_zoom :: "real option"

record heat_point =
  hp_lat :: real
  hp_lng :: real
  intensity :: real

record heatmap_data =
  heatmap_points :: "heat_point list option"
  hd_center :: "(real \<times> real) option"
  hd_zoom :: "real option"

definition circleMarker :: "marker_data \<Rightarrow> layer" where
  "circleMarker m = CircleMarker (lat m) (lng m) (color m) (popup m)"

text \<open>A number in a condition: absent and zero are both false.\<close>

fun truthy_num :: "real option \<Rightarrow> bool" where
  "truthy_num None = False"
| "truthy_num (Some z) = (z \<noteq> 0)"

text \<open>
  \<open>renderBuildingsOnMap\<close>. The argument is \<open>result.map_data\<close>, \<open>None\<close> when the
  envelope has no such field; reading \<open>markers\<close> from it then raises.
\<close>

definition renderBuildingsOnMap :: "world \<Rightarrow> map_data option \<Rightarrow> js_error + world" where
  "renderBuildingsOnMap w mapData =
     (case map_widget (state w) of
        None \<Rightarrow> Inr w
      | Some m \<Rightarrow>
          (case mapData of
             None \<Rightarrow> Inl TypeError
           | Some md \<Rightarrow>
               (case markers md of
                  None \<Rightarrow> Inr w
                | Some ms \<Rightarrow>
                    let cleared = m\<lparr>layers := filter (\<lambda>l. \<not> is_CircleMarker l) (layers m)\<rparr>;
                        added = cleared\<lparr>layers := layers cleared @ map circleMarker ms\<rparr>;
                        viewed =
                          (case md_center md of
                             Some c \<Rightarrow>
                               if truthy_num (md_zoom md)
                               then added\<lparr>center := c, zoom := the (md_zoom md)\<rparr> else added
                           | None \<Rightarrow> added)
                    in Inr (w\<lparr>state := (state w)\<lparr>map_widget := Some viewed\<rparr>,
                             console := console w @ [Log (digits10 (length ms) @ '' batiments affiches'')]\<rparr>))))"

text \<open>\<open>renderConsumptionHeatmap\<close>: an empty list of points clears the overlays and adds nothing.\<close>

definition heatLayer :: "heat_point list \<Rightarrow> layer" where
  "heatLayer ps = HeatLayer (map (\<lambda>p. (hp_lat p, hp_lng p, intensity p)) ps)"

definition renderConsumptionHeatmap :: "world \<Rightarrow> heatmap_data option \<Rightarrow> js_error + world" where
  "renderConsumptionHeatmap w heatmapData =
     (case map_widget (state w) of
        None \<Rightarrow> Inr w
      | Some m \<Rightarrow>
          (case heatmapData of
             None \<Rightarrow> Inl TypeError
           | Some hmd \<Rightarrow>
               (case heatmap_points hmd of
                  None \<Rightarrow> Inr w
                | Some ps \<Rightarrow>
                    let cleared = m\<lparr>layers :=
                          filter (\<lambda>l. \<not> (is_CircleMarker l \<or> is_HeatLayer l)) (layers m)\<rparr>
                    in if 0 < length ps then
                         let added = cleared\<lparr>layers := layers cleared @ [heatLayer ps]\<rparr>;
                             viewed =
                               (case hd_center hmd of
                                  Some c \<Rightarrow>
                                    added\<lparr>center := c,
                                      zoom := (if truthy_num (hd_zoom hmd) then the (hd_zoom hmd) else 7)\<rparr>
                                | None \<Rightarrow> added)
                         in Inr (w\<lparr>state := (state w)\<lparr>map_widget := Some viewed\<rparr>,
                                  console := console w
                                    @ [Log (''Heatmap avec '' @ digits10 (length ps) @ '' points'')]\<rparr>)
                       else Inr (w\<lparr>state := (state w)\<lparr>map_widget := Some cleared\<rparr>\<rparr>))))"

text \<open>
  \<open>document.getElementById(id)?.value || dflt\<close>: the value of the control, or the
  default when the control is missing or its value is the empty string.
\<close>

definition value_or :: "document \<Rightarrow> string \<Rightarrow> string \<Rightarrow> string" where
  "value_or d ident dflt =
     (case d ident of
        None \<Rightarrow> dflt
      | Some e \<Rightarrow> if el_value e = [] then dflt else el_value e)"

definition buildings_url :: "document \<Rightarrow> string" where
  "buildings_url d =
     ''/api/map/buildings?density='' @ value_or d ''map-density'' ''100''
       @ ''&type='' @ value_or d ''map-type-filter'' ''all''"

text \<open>
  What a fetching routine does with the outcome of its one request: the \<open>try\<close> block
  around \<open>fetch\<close>, \<open>response.json()\<close>, the test of \<open>result.success\<close> and the
  renderer, and the \<open>catch\<close> that logs under the routine's label. The status of the
  response is not looked at.
\<close>

definition handle_response ::
  "string \<Rightarrow> (world \<Rightarrow> 'p option \<Rightarrow> js_error + world) \<Rightarrow> world
     \<Rightarrow> 'p envelope option fetch_outcome \<Rightarrow> world" where
  "handle_response label render w out =
     (case out of
        Rejects msg \<Rightarrow> w\<lparr>console := console w @ [Error label msg]\<rparr>
      | Responds r \<Rightarrow>
          (case body r of
             NotJson msg \<Rightarrow> w\<lparr>console := console w @ [Error label msg]\<rparr>
           | Json None \<Rightarrow> w\<lparr>console := console w @ [Error label ''TypeError'']\<rparr>
           | Json (Some result) \<Rightarrow>
               if success result then
                 (case render w (payload result) of
                    Inl e \<Rightarrow> w\<lparr>console := console w @ [Error label ''TypeError'']\<rparr>
                  | Inr w' \<Rightarrow> w')
               else w))"

text \<open>\<open>DashboardMaps.showBuildingsView\<close>.\<close>

definition showBuildingsView :: "map_data api \<Rightarrow> world \<Rightarrow> world" where
  "showBuildingsView net w =
     (let url = buildings_url (dom w);
          w1 = w\<lparr>requests := requests w @ [url]\<rparr>
      in handle_response ''Erreur affichage batiments:'' renderBuildingsOnMap w1 (net url))"

text \<open>
  \<open>DashboardMaps.updateMapDensity\<close>, the \<open>onchange\<close> handler of the density slider:
  writing to a missing display element raises before anything is requested.
\<close>

definition updateMapDensity :: "map_data api \<Rightarrow> string \<Rightarrow> world \<Rightarrow> js_error + world" where
  "updateMapDensity net v w =
     (case dom w ''density-display'' of
        None \<Rightarrow> Inl TypeError
      | Some e \<Rightarrow>
          Inr (showBuildingsView net
                 (w\<lparr>dom := (dom w)(''density-display'' \<mapsto> e\<lparr>textContent := v\<rparr>)\<rparr>)))"


text \<open>The user moves a control: the browser stores the new value, then runs the handler.\<close>

definition set_control :: "string \<Rightarrow> string \<Rightarrow> world \<Rightarrow> world" where
  "set_control ident v w =
     (case dom w ident of
        None \<Rightarrow> w
      | Some e \<Rightarrow> w\<lparr>dom := (dom w)(ident \<mapsto> e\<lparr>el_value := v\<rparr>)\<rparr>)"

definition slider_changed :: "map_data api \<Rightarrow> string \<Rightarrow> world \<Rightarrow> js_error + world" where
  "slider_changed net v w = updateMapDensity net v (set_control ''map-density'' v w)"

section \<open>The charts module\<close>

text \<open>
  \<open>renderPlotlyChart\<close>: without the element nothing happens; otherwise
  \<open>Plotly.newPlot\<close> draws the chart in place of whatever the element showed, and the
  entry for resizing is overwritten.
\<close>

definition renderPlotlyChart :: "string \<Rightarrow> chart_data \<Rightarrow> world \<Rightarrow> world" where
  "renderPlotlyChart elementId chartData w =
     (case dom w elementId of
        None \<Rightarrow> w
      | Some e \<Rightarrow>
          let entry = \<lparr>entry_data = traces chartData, entry_layout = layout chartData,
                        entry_autosize = True, entry_responsive = True\<rparr>
          in w\<lparr>plots := (plots w)(elementId \<mapsto> entry),
               state := (state w)\<lparr>charts := (charts (state w))(elementId \<mapsto> entry)\<rparr>\<rparr>)"

record consumption_charts =
  detailed_consumption :: "chart_data option"
  hourly_patterns :: "chart_data option"
  consumption_heatmap :: "chart_data option"

definition render_if_present :: "string \<Rightarrow> chart_data option \<Rightarrow> world \<Rightarrow> world" where
  "render_if_present elementId c w =
     (case c of None \<Rightarrow> w | Some chartData \<Rightarrow> renderPlotlyChart elementId chartData w)"

definition renderConsumptionCharts :: "world \<Rightarrow> consumption_charts option \<Rightarrow> js_error + world" where
  "renderConsumptionCharts w cs =
     (case cs of
        None \<Rightarrow> Inl TypeError
      | Some c \<Rightarrow>
          Inr (render_if_present ''consumption-heatmap'' (consumption_heatmap c)
                (render_if_present ''hourly-patterns-chart'' (hourly_patterns c)
                  (render_if_present ''detailed-consumption-chart'' (detailed_consumption c) w))))"

definition consumption_url :: "document \<Rightarrow> string" where
  "consumption_url d =
     ''/api/charts/consumption?range='' @ value_or d ''time-range-select'' ''7d''
       @ ''&type='' @ value_or d ''building-type-select'' ''all''"

text \<open>\<open>DashboardCharts.updateConsumptionCharts\<close>.\<close>

definition updateConsumptionCharts :: "consumption_charts api \<Rightarrow> world \<Rightarrow> world" where
  "updateConsumptionCharts net w =
     (let url = consumption_url (dom w);
          w1 = w\<lparr>requests := requests w @ [url]\<rparr>
      in handle_response ''Erreur mise a jour graphiques:'' renderConsumptionCharts w1 (net url))"

section \<open>Worked examples for the maps and charts modules\<close>

definition blank_element :: element where
  "blank_element =
     \<lparr>el_type = [], el_name = [], value_attr = [], el_value = [], checked = False,
      textContent = [], innerHTML = [], dataset_loaded = None, ancestors = []\<rparr>"

definition osm_map :: leaflet_map where
  "osm_map = \<lparr>layers = [TileLayer ''openstreetmap''], center = (42105 / 10000, 1019758 / 10000), zoom = 6\<rparr>"

definition initial_state :: Dashboard_state where
  "initial_state =
     \<lparr>isConnected = False, dataLoaded = False, currentTab = ''overview'', lastUpdate = None,
      retryCount = 0, map_widget = Some osm_map, charts = Map.empty, cache = Map.empty\<rparr>"

text \<open>The buildings tab with the slider at 100 and the type \<open>office\<close> chosen.\<close>

definition buildings_page :: world where
  "buildings_page =
     \<lparr>dom = [''map-density'' \<mapsto> blank_element\<lparr>el_type := ''range'', el_value := ''100''\<rparr>,
             ''map-type-filter'' \<mapsto> blank_element\<lparr>el_value := ''office''\<rparr>,
             ''density-display'' \<mapsto> blank_element\<lparr>textContent := ''100''\<rparr>],
      data_theme = Some ''dark'', state = initial_state, plots = Map.empty, console = [],
      requests = []\<rparr>"

definition kl_tower :: marker_data where
  "kl_tower = \<lparr>lat = 3139 / 1000, lng = 1016869 / 10000, color = ''#28a745'', popup = ''B001''\<rparr>"

definition one_building :: map_data where
  "one_building = \<lparr>markers = Some [kl_tower], md_center = None, md_zoom = None\<rparr>"

definition no_markers :: map_data where
  "no_markers = \<lparr>markers = None, md_center = None, md_zoom = None\<rparr>"

definition answers :: "nat \<Rightarrow> 'p envelope option \<Rightarrow> 'p api" where
  "answers code env url = Responds \<lparr>status = code, statusText = [], body = Json env\<rparr>"

definition offline :: "'p api" where
  "offline url = Rejects ''Failed to fetch''"

text \<open>The layers of the map, none before the map exists.\<close>

definition map_layers :: "world \<Rightarrow> layer list" where
  "map_layers w = (case map_widget (state w) of None \<Rightarrow> [] | Some m \<Rightarrow> layers m)"

text \<open>Two calls of a renderer in a row.\<close>

definition render_twice ::
  "(world \<Rightarrow> 'p option \<Rightarrow> js_error + world) \<Rightarrow> world \<Rightarrow> 'p \<Rightarrow> 'p \<Rightarrow> js_error + world" where
  "render_twice render w p1 p2 =
     (case render w (Some p1) of Inl e \<Rightarrow> Inl e | Inr w1 \<Rightarrow> render w1 (Some p2))"

text \<open>The layers on the map after a renderer has returned, none if it raised.\<close>

definition layers_after :: "js_error + world \<Rightarrow> layer list" where
  "layers_after res = (case res of Inl e \<Rightarrow> [] | Inr w \<Rightarrow> map_layers w)"

definition hot_spot :: heat_point where
  "hot_spot = \<lparr>hp_lat = 3, hp_lng = 101, intensity = 4 / 5\<rparr>"

definition one_hot_spot :: heatmap_data where
  "one_hot_spot = \<lparr>heatmap_points = Some [hot_spot], hd_center = None, hd_zoom = None\<rparr>"

definition no_points :: heatmap_data where
  "no_points = \<lparr>heatmap_points = None, hd_center = None, hd_zoom = None\<rparr>"

text \<open>The buildings tab after the heatmap view has been shown once.\<close>

definition heatmap_page :: world where
  "heatmap_page =
     buildings_page\<lparr>state := initial_state\<lparr>map_widget :=
       Some (osm_map\<lparr>layers := [TileLayer ''openstreetmap'', heatLayer [hot_spot]]\<rparr>)\<rparr>\<rparr>"

section \<open>The module registry (core module)\<close>












section \<open>Writing to the document\<close>







section \<open>Tab contents (core module 1.1)\<close>




















section \<open>Importing settings (data module)\<close>

text \<open>What \<open>JSON.parse\<close> returns. In an object a key given twice keeps its last value.\<close>

datatype json =
    JsonNull
  | JsonBool bool
  | JsonNum real
  | JsonStr string
  | JsonArr "json list"
  | JsonObj "(string \<times> json) list"

text \<open>
  \<open>settings[key]\<close> for the twelve keys of the settings file: reading from \<open>null\<close>
  raises; an array, a string, a number or a boolean has none of these keys.
\<close>

fun json_get :: "json \<Rightarrow> string \<Rightarrow> js_error + json option" where
  "json_get JsonNull key = Inl TypeError"
| "json_get (JsonObj kvs) key = Inr (map_of (rev kvs) key)"
| "json_get v key = Inr None"

fun truthy_json :: "json \<Rightarrow> bool" where
  "truthy_json JsonNull = False"
| "truthy_json (JsonBool b) = b"
| "truthy_json (JsonNum x) = (x \<noteq> 0)"
| "truthy_json (JsonStr s) = (s \<noteq> [])"
| "truthy_json (JsonArr xs) = True"
| "truthy_json (JsonObj kvs) = True"

fun join_comma :: "string list \<Rightarrow> string" where
  "join_comma [] = []"
| "join_comma [s] = s"
| "join_comma (s # rest) = s @ '','' @ join_comma rest"

text \<open>
  \<open>ToString\<close> of a parsed value, as a template literal, \<open>setAttribute\<close> and the
  \<open>value\<close> setter of a control apply it. An array is joined with commas, \<open>null\<close>
  entries printing as nothing. A plain object prints as \<open>[object Object]\<close> through the
  inherited \<open>toString\<close>, unless it has a key \<open>toString\<close> of its own: a parsed value
  is never a function, so the conversion then goes on to \<open>valueOf\<close>, gets no primitive
  there either, and raises a TypeError.
\<close>

fun json_text :: "engine \<Rightarrow> json \<Rightarrow> js_error + string"
  and json_texts :: "engine \<Rightarrow> json list \<Rightarrow> js_error + string list" where
  "json_text E JsonNull = Inr ''null''"
| "json_text E (JsonBool b) = Inr (if b then ''true'' else ''false'')"
| "json_text E (JsonNum x) = Inr (NumberToString E x)"
| "json_text E (JsonStr s) = Inr s"
| "json_text E (JsonArr xs) =
     (case json_texts E xs of Inl e \<Rightarrow> Inl e | Inr ss \<Rightarrow> Inr (join_comma ss))"
| "json_text E (JsonObj kvs) =
     (if ''toString'' \<in> fst ` set kvs then Inl TypeError else Inr ''[object Object]'')"
| "json_texts E [] = Inr []"
| "json_texts E (x # xs) =
     (case (if x = JsonNull then Inr [] else json_text E x) of
        Inl e \<Rightarrow> Inl e
      | Inr s \<Rightarrow> (case json_texts E xs of Inl e \<Rightarrow> Inl e | Inr ss \<Rightarrow> Inr (s # ss)))"

text \<open>
  What the source leaves to the browser: the answer of \<open>document.querySelector\<close> to a
  selector (a syntax error, no element, or the first match, given by its id as the
  document holds the elements that have one), and the text a control holds after
  \<open>element.value = v\<close> has gone through.
\<close>

record dom_engine =
  querySelector :: "string \<Rightarrow> js_error + string option"
  value_after_set :: "element \<Rightarrow> json \<Rightarrow> string"

definition mappings :: "(string \<times> string) list" where
  "mappings =
     [(''language-select'', ''language''),
      (''animations-toggle'', ''animations''),
      (''sounds-toggle'', ''sounds''),
      (''chart-resolution'', ''chartResolution''),
      (''max-points-range'', ''maxPoints''),
      (''auto-refresh-toggle'', ''autoRefresh''),
      (''ollama-url'', ''ollamaUrl''),
      (''default-model'', ''defaultModel''),
      (''ollama-timeout'', ''ollamaTimeout''),
      (''cache-duration'', ''cacheDuration''),
      (''export-folder'', ''exportFolder'')]"

text \<open>\<open>settings[key]\<close> once \<open>settings\<close> is known not to be \<open>null\<close>.\<close>

definition setting :: "json \<Rightarrow> string \<Rightarrow> json option" where
  "setting settings key = (case json_get settings key of Inl e \<Rightarrow> None | Inr v \<Rightarrow> v)"

text \<open>
  \<open>element.value = v\<close> on an \<open>input\<close> or a \<open>select\<close> element, as the mapped elements
  are: the setter first converts \<open>v\<close> to a string, which can raise (an input takes
  \<open>null\<close> as the empty string without converting), and a file input refuses every text
  but the empty one with an InvalidStateError.
\<close>

definition assign_value :: "dom_engine \<Rightarrow> engine \<Rightarrow> element \<Rightarrow> json \<Rightarrow> js_error + element" where
  "assign_value B E el v =
     (case json_text E v of
        Inl e \<Rightarrow> Inl e
      | Inr s \<Rightarrow>
          if el_type el = ''file'' \<and> v \<noteq> JsonNull \<and> s \<noteq> [] then Inl InvalidStateError
          else Inr (el\<lparr>el_value := value_after_set B el v\<rparr>))"

text \<open>The body of the \<open>forEach\<close> over the mappings.\<close>

definition apply_mapping ::
  "dom_engine \<Rightarrow> engine \<Rightarrow> json \<Rightarrow> string \<times> string \<Rightarrow> world \<Rightarrow> js_error + world" where
  "apply_mapping B E settings m w =
     (case dom w (fst m) of
        None \<Rightarrow> Inr w
      | Some el \<Rightarrow>
          (case setting settings (snd m) of
             None \<Rightarrow> Inr w
           | Some v \<Rightarrow>
               if el_type el = ''checkbox''
               then Inr (w\<lparr>dom := (dom w)(fst m \<mapsto> el\<lparr>checked := truthy_json v\<rparr>)\<rparr>)
               else (case assign_value B E el v of
                       Inl e \<Rightarrow> Inl e
                     | Inr el' \<Rightarrow> Inr (w\<lparr>dom := (dom w)(fst m \<mapsto> el')\<rparr>))))"

text \<open>
  The \<open>forEach\<close> itself, in the order of the object literal: an exception in one pass
  ends the loop, the controls set before stay set.
\<close>

fun apply_mappings ::
  "dom_engine \<Rightarrow> engine \<Rightarrow> json \<Rightarrow> (string \<times> string) list \<Rightarrow> world \<Rightarrow> js_error option \<times> world" where
  "apply_mappings B E settings [] w = (None, w)"
| "apply_mappings B E settings (m # ms) w =
     (case apply_mapping B E settings m w of
        Inl e \<Rightarrow> (Some e, w)
      | Inr w' \<Rightarrow> apply_mappings B E settings ms w')"

definition theme_selector :: "string \<Rightarrow> string" where
  "theme_selector t = ''input[name='' @ [CHR 0x22] @ ''theme'' @ [CHR 0x22] @ ''][value=''
     @ [CHR 0x22] @ t @ [CHR 0x22] @ '']''"

text \<open>
  \<open>themeRadio.checked = true\<close> as the browser carries it out: the element is checked,
  and when it is a radio button with a name, the other radio buttons of that name are
  unchecked (the page has no forms, so the group is the whole document).
\<close>

definition check_radio :: "string \<Rightarrow> document \<Rightarrow> document" where
  "check_radio ident d =
     (case d ident of
        None \<Rightarrow> d
      | Some el \<Rightarrow>
          (\<lambda>i. if i = ident then Some (el\<lparr>checked := True\<rparr>)
               else if el_type el = ''radio'' \<and> el_name el \<noteq> []
               then map_option
                      (\<lambda>x. if el_type x = ''radio'' \<and> el_name x = el_name el
                           then x\<lparr>checked := False\<rparr> else x) (d i)
               else d i))"

text \<open>
  The first statement of \<open>applySettings\<close>, given \<open>settings.theme\<close>: the conversion of the
  theme to a string comes first and can raise; the attribute is set before the selector
  is put to the browser.
\<close>

definition apply_theme ::
  "dom_engine \<Rightarrow> engine \<Rightarrow> json option \<Rightarrow> world \<Rightarrow> js_error option \<times> world" where
  "apply_theme B E theme w =
     (case theme of
        None \<Rightarrow> (None, w)
      | Some th \<Rightarrow>
          if \<not> truthy_json th then (None, w)
          else (case json_text E th of
                  Inl e \<Rightarrow> (Some e, w)
                | Inr t \<Rightarrow>
                    let w1 = w\<lparr>data_theme := Some t\<rparr>
                    in (case querySelector B (theme_selector t) of
                          Inl e \<Rightarrow> (Some e, w1)
                        | Inr None \<Rightarrow> (None, w1)
                        | Inr (Some themeRadio) \<Rightarrow>
                            (None, w1\<lparr>dom := check_radio themeRadio (dom w1)\<rparr>))))"

text \<open>
  \<open>DashboardData.applySettings\<close>: the exception it ends with, if any, and the page it
  leaves.
\<close>

definition applySettings :: "dom_engine \<Rightarrow> engine \<Rightarrow> json \<Rightarrow> world \<Rightarrow> js_error option \<times> world" where
  "applySettings B E settings w =
     (case json_get settings ''theme'' of
        Inl e \<Rightarrow> (Some e, w)
      | Inr theme \<Rightarrow>
          (case apply_theme B E theme w of
             (Some e, w1) \<Rightarrow> (Some e, w1)
           | (None, w1) \<Rightarrow> apply_mappings B E settings mappings w1))"

text \<open>
  The element that the first statement checks, when it gets that far: the answer of the
  browser to the selector made from the theme.
\<close>

definition theme_radio :: "dom_engine \<Rightarrow> engine \<Rightarrow> json \<Rightarrow> string option" where
  "theme_radio B E settings =
     (case setting settings ''theme'' of
        None \<Rightarrow> None
      | Some th \<Rightarrow>
          if \<not> truthy_json th then None
          else (case json_text E th of
                  Inl e \<Rightarrow> None
                | Inr t \<Rightarrow>
                    (case querySelector B (theme_selector t) of
                       Inr (Some r) \<Rightarrow> Some r
                     | _ \<Rightarrow> None)))"

text \<open>
  The theme is missing or falsy, or it has a text and the browser takes the selector made
  from it.
\<close>

definition theme_accepted :: "dom_engine \<Rightarrow> engine \<Rightarrow> json \<Rightarrow> bool" where
  "theme_accepted B E settings =
     (case setting settings ''theme'' of
        None \<Rightarrow> True
      | Some th \<Rightarrow>
          if \<not> truthy_json th then True
          else (case json_text E th of
                  Inl e \<Rightarrow> False
                | Inr t \<Rightarrow>
                    (case querySelector B (theme_selector t) of Inl e \<Rightarrow> False | Inr r \<Rightarrow> True)))"

text \<open>Every value given for a mapped key has a text, and no mapped control is a file input.\<close>

definition has_text :: "engine \<Rightarrow> json \<Rightarrow> bool" where
  "has_text E v = (case json_text E v of Inl e \<Rightarrow> False | Inr s \<Rightarrow> True)"

definition values_have_text :: "engine \<Rightarrow> json \<Rightarrow> bool" where
  "values_have_text E settings =
     list_all (\<lambda>m. case setting settings (snd m) of None \<Rightarrow> True | Some v \<Rightarrow> has_text E v)
       mappings"

definition no_file_input :: "world \<Rightarrow> bool" where
  "no_file_input w =
     list_all (\<lambda>m. map_option el_type (dom w (fst m)) \<noteq> Some ''file'') mappings"

text \<open>The settings tab as the data module renders it.\<close>

definition settings_page :: world where
  "settings_page =
     \<lparr>dom =
        [''theme-dark'' \<mapsto> blank_element\<lparr>el_type := ''radio'', el_name := ''theme'',
            value_attr := ''dark'', el_value := ''dark'', checked := True\<rparr>,
         ''theme-light'' \<mapsto> blank_element\<lparr>el_type := ''radio'', el_name := ''theme'',
            value_attr := ''light'', el_value := ''light''\<rparr>,
         ''language-select'' \<mapsto> blank_element\<lparr>el_type := ''select-one'', el_value := ''fr''\<rparr>,
         ''animations-toggle'' \<mapsto> blank_element\<lparr>el_type := ''checkbox'', checked := True\<rparr>,
         ''sounds-toggle'' \<mapsto> blank_element\<lparr>el_type := ''checkbox''\<rparr>,
         ''chart-resolution'' \<mapsto> blank_element\<lparr>el_type := ''select-one'', el_value := ''high''\<rparr>,
         ''max-points-range'' \<mapsto> blank_element\<lparr>el_type := ''range'', el_value := ''10000''\<rparr>,
         ''auto-refresh-toggle'' \<mapsto> blank_element\<lparr>el_type := ''checkbox''\<rparr>,
         ''ollama-url'' \<mapsto> blank_element\<lparr>el_type := ''url'', el_value := ''http://localhost:11434''\<rparr>,
         ''default-model'' \<mapsto> blank_element\<lparr>el_type := ''select-one'', el_value := ''mistral:latest''\<rparr>,
         ''ollama-timeout'' \<mapsto> blank_element\<lparr>el_type := ''number'', el_value := ''120''\<rparr>,
         ''cache-duration'' \<mapsto> blank_element\<lparr>el_type := ''number'', el_value := ''60''\<rparr>,
         ''export-folder'' \<mapsto> blank_element\<lparr>el_type := ''text'', el_value := ''exports''\<rparr>],
      data_theme = Some ''dark'', state = initial_state, plots = Map.empty, console = [],
      requests = []\<rparr>"

text \<open>
  A theme that closes the attribute value and the bracket early and goes on with two more
  selectors: the selector made from it is the list
  \<open>input[name="theme"][value="x"],#sounds-toggle,[y=""]\<close>.
\<close>

definition injected_theme :: string where
  "injected_theme = ''x'' @ [CHR 0x22] @ ''],#sounds-toggle,[y='' @ [CHR 0x22]"

text \<open>The ids of the controls of the settings tab, in the order of the markup.\<close>

definition settings_ids :: "string list" where
  "settings_ids =
     [''theme-dark'', ''theme-light'', ''language-select'', ''animations-toggle'',
      ''sounds-toggle'', ''chart-resolution'', ''max-points-range'', ''auto-refresh-toggle'',
      ''ollama-url'', ''default-model'', ''ollama-timeout'', ''cache-duration'',
      ''export-folder'']"

text \<open>
  What a browser that shows the settings tab answers to the selectors put to it below.
  The theme selector finds the radio button of that value for the themes \<open>dark\<close> and
  \<open>light\<close>. For a theme that is one quotation mark the text
  \<open>input[name="theme"][value="""]\<close> is no selector. Of the list made from the injected
  theme the first part matches nothing, no element has an attribute \<open>y\<close>, and the
  element of id \<open>sounds-toggle\<close> is the first match. A number sign and the id of a
  control find that control, and the empty text is no selector. Any other selector is not
  put to this browser below; it is answered with no match, as the theme selector is for
  every other theme without a quotation mark or a backslash. Of the value setter only
  this much is used: a control takes the text of a string as its value.
\<close>

definition settings_tab_browser :: dom_engine where
  "settings_tab_browser =
     \<lparr>querySelector = (\<lambda>sel.
         if sel = theme_selector ''dark'' then Inr (Some ''theme-dark'')
         else if sel = theme_selector ''light'' then Inr (Some ''theme-light'')
         else if sel = theme_selector [CHR 0x22] then Inl SyntaxError
         else if sel = theme_selector injected_theme then Inr (Some ''sounds-toggle'')
         else (case sel of
                 [] \<Rightarrow> Inl SyntaxError
               | c # i \<Rightarrow> if c = CHR ''#'' \<and> i \<in> set settings_ids then Inr (Some i)
                          else Inr None)),
       value_after_set = (\<lambda>el v. case v of JsonStr s \<Rightarrow> s | _ \<Rightarrow> [])\<rparr>"

text \<open>What one pass of the loop makes of a control, given the key it is mapped to.\<close>

definition updated_control :: "dom_engine \<Rightarrow> json \<Rightarrow> string \<Rightarrow> element \<Rightarrow> element" where
  "updated_control B settings key el =
     (case setting settings key of
        None \<Rightarrow> el
      | Some v \<Rightarrow>
          if el_type el = ''checkbox'' then el\<lparr>checked := truthy_json v\<rparr>
          else el\<lparr>el_value := value_after_set B el v\<rparr>)"

text \<open>A settings file that names the theme, the language and the sounds, and nothing else.\<close>

definition partial_settings :: json where
  "partial_settings =
     JsonObj [(''theme'', JsonStr ''light''), (''language'', JsonStr ''en''),
              (''sounds'', JsonBool True)]"

section \<open>Steps of the page\<close>


section \<open>Properties of the formatters\<close>

lemmas toFixed_eval = fixed_digits_def digits10.simps pad0_def

lemmas double_eval = to_double_def ulp_def ilog2_def pow2_def round_half_even_def
  compute_floorlog Let_def

subsection \<open>Rounding to a double\<close>

lemma ilog2_ge1:
  fixes x :: real
  assumes "1 \<le> x"
  shows "2 powi (ilog2 x) \<le> x \<and> x < 2 powi (ilog2 x + 1)"
proof -
  define a where "a = nat \<lfloor>x\<rfloor>"
  define m where "m = floorlog 2 a"
  have a1: "0 < a" using assms by (simp add: a_def)
  have ra: "real a = of_int \<lfloor>x\<rfloor>" using assms by (simp add: a_def)
  have ax: "real a \<le> x" "x < real a + 1"
    using floor_correct [of x] by (simp_all add: ra)
  from floorlog_bounds [of a 2] a1
  have fb: "2 ^ (m - 1) \<le> a" "a < 2 ^ m" by (simp_all add: m_def)
  have m1: "1 \<le> m" using a1 by (simp add: m_def floorlog_def)
  have il: "ilog2 x = int (m - 1)" using assms m1 by (simp add: ilog2_def m_def a_def)
  have lo: "(2::real) ^ (m - 1) \<le> x"
  proof -
    have "(2::real) ^ (m - 1) = real (2 ^ (m - 1))" by simp
    also have "\<dots> \<le> real a" using fb(1) by (rule of_nat_mono)
    finally show ?thesis using ax(1) by linarith
  qed
  have hi: "x < (2::real) ^ m"
  proof -
    have "a + 1 \<le> 2 ^ m" using fb(2) by simp
    then have "real (a + 1) \<le> real (2 ^ m)" by (rule of_nat_mono)
    moreover have "real (2 ^ m) = (2::real) ^ m" by simp
    moreover have "real (a + 1) = real a + 1" by simp
    ultimately show ?thesis using ax(2) by linarith
  qed
  have e: "int (m - 1) + 1 = int m" using m1 by simp
  have "(2::real) powi (int (m - 1)) = 2 ^ (m - 1)" "(2::real) powi (int m) = 2 ^ m"
    by (simp_all only: power_int_of_nat)
  then show ?thesis using lo hi by (simp only: il e)
qed

lemma ilog2_lt1:
  fixes x :: real
  assumes "0 < x" "x < 1"
  shows "2 powi (ilog2 x) \<le> x \<and> x < 2 powi (ilog2 x + 1)"
proof -
  define c where "c = nat \<lceil>1 / x\<rceil>"
  define a where "a = c - 1"
  define m where "m = floorlog 2 a"
  have y1: "1 < 1 / x" using assms by simp
  then have c2: "2 \<le> c" by (simp add: c_def) linarith
  have a1: "0 < a" using c2 by (simp add: a_def)
  have rc: "real c = of_int \<lceil>1 / x\<rceil>" using y1 by (simp add: c_def)
  have cy: "1 / x \<le> real c" "real c - 1 < 1 / x"
    using ceiling_correct [of "1 / x"] by (simp_all add: rc)
  from floorlog_bounds [of a 2] a1
  have fb: "2 ^ (m - 1) \<le> a" "a < 2 ^ m" by (simp_all add: m_def)
  have m1: "1 \<le> m" using a1 by (simp add: m_def floorlog_def)
  have il: "ilog2 x = - int m" using assms by (simp add: ilog2_def m_def a_def c_def)
  have ra: "real a = real c - 1" using c2 by (simp add: a_def)
  have up: "1 / x \<le> (2::real) ^ m"
  proof -
    have "c \<le> 2 ^ m" using fb(2) c2 by (simp add: a_def)
    then have "real c \<le> real (2 ^ m)" by (rule of_nat_mono)
    moreover have "real (2 ^ m) = (2::real) ^ m" by simp
    ultimately show ?thesis using cy(1) by linarith
  qed
  have dn: "(2::real) ^ (m - 1) < 1 / x"
  proof -
    have "real (2 ^ (m - 1)) \<le> real a" using fb(1) by (rule of_nat_mono)
    moreover have "real (2 ^ (m - 1)) = (2::real) ^ (m - 1)" by simp
    ultimately show ?thesis using ra cy(2) by linarith
  qed
  have lo: "1 / (2::real) ^ m \<le> x"
    using up assms(1) by (simp add: field_simps)
  have hi: "x < 1 / (2::real) ^ (m - 1)"
    using dn assms(1) by (simp add: field_simps)
  have e1: "(2::real) powi (- int m) = 1 / 2 ^ m"
    by (simp add: power_int_minus field_simps)
  have e: "- int m + 1 = - int (m - 1)" using m1 by simp
  have e2: "(2::real) powi (- int m + 1) = 1 / 2 ^ (m - 1)"
    unfolding e by (simp add: power_int_minus field_simps)
  show ?thesis using lo hi il e1 e2 by simp
qed

lemma ilog2_abs: "ilog2 \<bar>x\<bar> = ilog2 x"
  by (simp add: ilog2_def)

text \<open>The exponent: \<open>2^(ilog2 x) \<le> |x| < 2^(ilog2 x + 1)\<close>.\<close>

lemma ilog2_bounds:
  fixes x :: real
  assumes "x \<noteq> 0"
  shows "2 powi (ilog2 x) \<le> \<bar>x\<bar> \<and> \<bar>x\<bar> < 2 powi (ilog2 x + 1)"
proof (cases "1 \<le> \<bar>x\<bar>")
  case True
  then show ?thesis using ilog2_ge1 [of "\<bar>x\<bar>"] by (simp add: ilog2_abs)
next
  case False
  then show ?thesis using ilog2_lt1 [of "\<bar>x\<bar>"] assms by (simp add: ilog2_abs)
qed

lemma pow2_powi: "pow2 k = 2 powi k"
  by (simp add: pow2_def power_int_def field_simps)

lemma ulp_pos: "0 < ulp x"
  by (simp add: ulp_def pow2_powi)

lemma round_half_even_near: "\<bar>of_int (round_half_even y) - y\<bar> \<le> 1 / 2"
  unfolding round_half_even_def Let_def by (auto; linarith)

text \<open>A finite result is within half a unit in the last place of the exact one.\<close>

lemma to_double_near:
  assumes "to_double x = Fin y"
  shows "\<bar>y - x\<bar> \<le> ulp x / 2"
proof (cases "x = 0")
  case True
  then show ?thesis using assms ulp_pos [of x] by (simp add: to_double_def)
next
  case False
  define n where "n = round_half_even (x / ulp x)"
  have y: "y = of_int n * ulp x"
    using assms False by (simp add: to_double_def Let_def n_def split: if_splits)
  have "\<bar>of_int n - x / ulp x\<bar> \<le> 1 / 2"
    unfolding n_def by (rule round_half_even_near)
  then have "\<bar>of_int n - x / ulp x\<bar> * ulp x \<le> 1 / 2 * ulp x"
    using ulp_pos [of x] by (intro mult_right_mono) simp_all
  moreover have "\<bar>of_int n - x / ulp x\<bar> * ulp x = \<bar>of_int n * ulp x - x\<bar>"
  proof -
    have "\<bar>of_int n - x / ulp x\<bar> * ulp x = \<bar>(of_int n - x / ulp x) * ulp x\<bar>"
      using ulp_pos [of x] by (simp add: abs_mult)
    also have "(of_int n - x / ulp x) * ulp x = of_int n * ulp x - x"
      using ulp_pos [of x] by (simp add: left_diff_distrib)
    finally show ?thesis .
  qed
  ultimately show ?thesis by (simp add: y)
qed

text \<open>
  Doubles that are their own rounding, and the doubles nearest to 0.0075 and to 1.15:
  the first times 100 is 0.75 after rounding, though less before.
\<close>

lemma to_double_examples:
  "to_double (3 / 2) = Fin (3 / 2)"
  "to_double 100 = Fin 100"
  "to_double (75 / 10000) = Fin (1080863910568919 / 2 ^ 57)"
  "to_double (1080863910568919 / 2 ^ 57 * 100) = Fin (3 / 4)"
  "(1080863910568919 / 2 ^ 57 * 100 :: real) < 3 / 4"
  "to_double (1150 / 1000) = Fin (2589569785738035 / 2 ^ 51)"
  by (simp_all add: double_eval)

subsection \<open>The integer logarithm is the floor of the quotient of logarithms\<close>

lemma floor_log1024_eqI:
  fixes x :: real and k :: int
  assumes "0 < x" "1024 powi k \<le> x" "x < 1024 powi (k + 1)"
  shows "\<lfloor>ln x / ln 1024\<rfloor> = k"
proof -
  have a: "(1024::real) powr (real_of_int k) = 1024 powi k"
    by (simp add: powr_real_of_int')
  have b: "(1024::real) powr (real_of_int k + 1) = 1024 powi (k + 1)"
    using powr_real_of_int' [of "1024::real" "k + 1"] by simp
  have "\<lfloor>log 1024 x\<rfloor> = k"
    using assms a b by (subst floor_log_eq_powr_iff) simp_all
  then show ?thesis by (simp add: log_def)
qed

lemma ilog1024_ge1:
  fixes x :: real
  assumes "1 \<le> x"
  shows "1024 powi (ilog1024 x) \<le> x \<and> x < 1024 powi (ilog1024 x + 1)"
proof -
  define a where "a = nat \<lfloor>x\<rfloor>"
  define m where "m = floorlog 1024 a"
  have a1: "0 < a" using assms by (simp add: a_def)
  have ra: "real a = of_int \<lfloor>x\<rfloor>" using assms by (simp add: a_def)
  have ax: "real a \<le> x" "x < real a + 1"
    using floor_correct [of x] by (simp_all add: ra)
  from floorlog_bounds [of a 1024] a1
  have fb: "1024 ^ (m - 1) \<le> a" "a < 1024 ^ m" by (simp_all add: m_def)
  have m1: "1 \<le> m" using a1 by (simp add: m_def floorlog_def)
  have il: "ilog1024 x = int (m - 1)" using assms m1 by (simp add: ilog1024_def m_def a_def)
  have lo: "(1024::real) ^ (m - 1) \<le> x"
  proof -
    have "(1024::real) ^ (m - 1) = real (1024 ^ (m - 1))" by simp
    also have "\<dots> \<le> real a" using fb(1) by (rule of_nat_mono)
    finally show ?thesis using ax(1) by linarith
  qed
  have hi: "x < (1024::real) ^ m"
  proof -
    have "a + 1 \<le> 1024 ^ m" using fb(2) by simp
    then have "real (a + 1) \<le> real (1024 ^ m)" by (rule of_nat_mono)
    moreover have "real (1024 ^ m) = (1024::real) ^ m" by simp
    moreover have "real (a + 1) = real a + 1" by simp
    ultimately show ?thesis using ax(2) by linarith
  qed
  have e: "int (m - 1) + 1 = int m" using m1 by simp
  have "(1024::real) powi (int (m - 1)) = 1024 ^ (m - 1)" "(1024::real) powi (int m) = 1024 ^ m"
    by (simp_all only: power_int_of_nat)
  then show ?thesis using lo hi by (simp only: il e)
qed

lemma ilog1024_lt1:
  fixes x :: real
  assumes "0 < x" "x < 1"
  shows "1024 powi (ilog1024 x) \<le> x \<and> x < 1024 powi (ilog1024 x + 1)"
proof -
  define c where "c = nat \<lceil>1 / x\<rceil>"
  define a where "a = c - 1"
  define m where "m = floorlog 1024 a"
  have y1: "1 < 1 / x" using assms by simp
  then have c2: "2 \<le> c" by (simp add: c_def) linarith
  have a1: "0 < a" using c2 by (simp add: a_def)
  have rc: "real c = of_int \<lceil>1 / x\<rceil>" using y1 by (simp add: c_def)
  have cy: "1 / x \<le> real c" "real c - 1 < 1 / x"
    using ceiling_correct [of "1 / x"] by (simp_all add: rc)
  from floorlog_bounds [of a 1024] a1
  have fb: "1024 ^ (m - 1) \<le> a" "a < 1024 ^ m" by (simp_all add: m_def)
  have m1: "1 \<le> m" using a1 by (simp add: m_def floorlog_def)
  have il: "ilog1024 x = - int m" using assms by (simp add: ilog1024_def m_def a_def c_def)
  have ra: "real a = real c - 1" using c2 by (simp add: a_def)
  have up: "1 / x \<le> (1024::real) ^ m"
  proof -
    have "c \<le> 1024 ^ m" using fb(2) c2 by (simp add: a_def)
    then have "real c \<le> real (1024 ^ m)" by (rule of_nat_mono)
    moreover have "real (1024 ^ m) = (1024::real) ^ m" by simp
    ultimately show ?thesis using cy(1) by linarith
  qed
  have dn: "(1024::real) ^ (m - 1) < 1 / x"
  proof -
    have "real (1024 ^ (m - 1)) \<le> real a" using fb(1) by (rule of_nat_mono)
    moreover have "real (1024 ^ (m - 1)) = (1024::real) ^ (m - 1)" by simp
    ultimately show ?thesis using ra cy(2) by linarith
  qed
  have lo: "1 / (1024::real) ^ m \<le> x"
    using up assms(1) by (simp add: field_simps)
  have hi: "x < 1 / (1024::real) ^ (m - 1)"
    using dn assms(1) by (simp add: field_simps)
  have e1: "(1024::real) powi (- int m) = 1 / 1024 ^ m"
    by (simp add: power_int_minus field_simps)
  have e: "- int m + 1 = - int (m - 1)" using m1 by simp
  have e2: "(1024::real) powi (- int m + 1) = 1 / 1024 ^ (m - 1)"
    unfolding e by (simp add: power_int_minus field_simps)
  show ?thesis using lo hi il e1 e2 by simp
qed

lemma floor_log1024_ilog:
  fixes x :: real
  assumes "0 < x"
  shows "\<lfloor>ln x / ln 1024\<rfloor> = ilog1024 x"
proof (cases "1 \<le> x")
  case True
  then show ?thesis using ilog1024_ge1 [of x] assms by (intro floor_log1024_eqI) simp_all
next
  case False
  then show ?thesis using ilog1024_lt1 [of x] assms by (intro floor_log1024_eqI) simp_all
qed

lemma fileSize_examples:
  "formatFileSize E (JNum (Fin 1536)) = (Inr ''1.5 KB'', [Fin 1536])"
  "formatUtils_fileSize E (JNum (Fin 5000000)) = (Inr ''4.8 MB'', [Fin 5000000])"
  "formatFileSize E (JNum (Fin (1 / 2))) = (Inr ''512.0 undefined'', [Fin (1 / 2)])"
  "formatUtils_fileSize E JNull = (Inr ''NaN undefined'', [Fin 0])"
  by (simp_all add: formatFileSize_def formatUtils_fileSize_def fileSize_scaled_def
      ilog1024_def sizes_def toFixed_eval double_eval)

subsection \<open>Numbers\<close>

text \<open>
  C7. With the one-decimal default, \<open>formatNumber\<close> gives \<open>999.0\<close> for 999, \<open>1.5k\<close> for
  1500 and \<open>2.5M\<close> for 2500000, in the core module (both versions) and in
  \<open>formatUtils.number\<close>. Below 1000 the number is printed as it is; from 1000 on it is
  divided by 1000 and followed by \<open>k\<close>; from 1000000 on it is divided by 1000000 and
  followed by \<open>M\<close> (in version 1.1 of the core up to 10^9, where \<open>B\<close> takes over). The
  quotient is the double that the division gives.
\<close>

theorem formatNumber_scaling:
  "formatNumber E (JNum (Fin 999)) None = Inr (JStr ''999.0'') \<and>
   formatNumber E (JNum (Fin 1500)) None = Inr (JStr ''1.5k'') \<and>
   formatNumber E (JNum (Fin 2500000)) None = Inr (JStr ''2.5M'') \<and>
   formatNumber_v1 E (JNum (Fin 999)) = Inr ''999.0'' \<and>
   formatNumber_v1 E (JNum (Fin 1500)) = Inr ''1.5k'' \<and>
   formatNumber_v1 E (JNum (Fin 2500000)) = Inr ''2.5M'' \<and>
   formatUtils_number E (JNum (Fin 999)) None = Inr ''999.0'' \<and>
   formatUtils_number E (JNum (Fin 1500)) None = Inr ''1.5k'' \<and>
   formatUtils_number E (JNum (Fin 2500000)) None = Inr ''2.5M'' \<and>
   (\<forall>x. x < 1000 \<longrightarrow>
      formatNumber E (JNum (Fin x)) None = as_str (toFixed E (Fin x) 1) \<and>
      formatUtils_number E (JNum (Fin x)) None = toFixed E (Fin x) 1) \<and>
   (\<forall>x. 1000 \<le> x \<and> x < 1000000 \<longrightarrow>
      formatNumber E (JNum (Fin x)) None = as_str (with_suffix (toFixed E (to_double (x / 1000)) 1) ''k'') \<and>
      formatNumber_v1 E (JNum (Fin x)) = with_suffix (toFixed E (to_double (x / 1000)) 1) ''k'' \<and>
      formatUtils_number E (JNum (Fin x)) None = with_suffix (toFixed E (to_double (x / 1000)) 1) ''k'') \<and>
   (\<forall>x. 1000000 \<le> x \<and> x < 1000000000 \<longrightarrow>
      formatNumber E (JNum (Fin x)) None = as_str (with_suffix (toFixed E (to_double (x / 1000000)) 1) ''M'')) \<and>
   (\<forall>x. 1000000 \<le> x \<longrightarrow>
      formatNumber_v1 E (JNum (Fin x)) = with_suffix (toFixed E (to_double (x / 1000000)) 1) ''M'' \<and>
      formatUtils_number E (JNum (Fin x)) None = with_suffix (toFixed E (to_double (x / 1000000)) 1) ''M'') \<and>
   (\<forall>x. 0 \<le> x \<and> x < 1000 \<longrightarrow> formatNumber_v1 E (JNum (Fin x)) = toFixed E (Fin x) 1)"
proof -
  have ex: "formatNumber E (JNum (Fin 999)) None = Inr (JStr ''999.0'')"
    "formatNumber E (JNum (Fin 1500)) None = Inr (JStr ''1.5k'')"
    "formatNumber E (JNum (Fin 2500000)) None = Inr (JStr ''2.5M'')"
    "formatNumber_v1 E (JNum (Fin 999)) = Inr ''999.0''"
    "formatNumber_v1 E (JNum (Fin 1500)) = Inr ''1.5k''"
    "formatNumber_v1 E (JNum (Fin 2500000)) = Inr ''2.5M''"
    "formatUtils_number E (JNum (Fin 999)) None = Inr ''999.0''"
    "formatUtils_number E (JNum (Fin 1500)) None = Inr ''1.5k''"
    "formatUtils_number E (JNum (Fin 2500000)) None = Inr ''2.5M''"
    by (simp_all add: formatNumber_v1_def formatUtils_number_def toFixed_eval double_eval)
  have lo: "formatNumber E (JNum (Fin x)) None = as_str (toFixed E (Fin x) 1) \<and>
      formatUtils_number E (JNum (Fin x)) None = toFixed E (Fin x) 1" if "x < 1000" for x
    using that by (simp add: formatUtils_number_def del: toFixed.simps)
  have k: "formatNumber E (JNum (Fin x)) None = as_str (with_suffix (toFixed E (to_double (x / 1000)) 1) ''k'') \<and>
      formatNumber_v1 E (JNum (Fin x)) = with_suffix (toFixed E (to_double (x / 1000)) 1) ''k'' \<and>
      formatUtils_number E (JNum (Fin x)) None = with_suffix (toFixed E (to_double (x / 1000)) 1) ''k''"
    if "1000 \<le> x \<and> x < 1000000" for x
    using that by (simp add: formatUtils_number_def formatNumber_v1_def del: toFixed.simps)
  have m: "formatNumber E (JNum (Fin x)) None = as_str (with_suffix (toFixed E (to_double (x / 1000000)) 1) ''M'')"
    if "1000000 \<le> x \<and> x < 1000000000" for x
    using that by (simp del: toFixed.simps)
  have m': "formatNumber_v1 E (JNum (Fin x)) = with_suffix (toFixed E (to_double (x / 1000000)) 1) ''M'' \<and>
      formatUtils_number E (JNum (Fin x)) None = with_suffix (toFixed E (to_double (x / 1000000)) 1) ''M''"
    if "1000000 \<le> x" for x
    using that by (simp add: formatUtils_number_def formatNumber_v1_def del: toFixed.simps)
  have lo1: "formatNumber_v1 E (JNum (Fin x)) = toFixed E (Fin x) 1" if "0 \<le> x \<and> x < 1000" for x
    using that by (simp add: formatNumber_v1_def del: toFixed.simps)
  show ?thesis using ex lo k m m' lo1 by blast
qed

theorem formatNumber_scaling_witness:
  "(999::real) < 1000 \<and> (1000::real) \<le> 1000 \<and> (1000::real) < 1000000 \<and>
   (1000000::real) \<le> 1000000 \<and> (1000000::real) < 1000000000 \<and> (0::real) \<le> 999 \<and>
   formatNumber example_engine (JNum (Fin 999)) None = Inr (JStr ''999.0'') \<and>
   formatNumber example_engine (JNum (Fin 1000)) None = Inr (JStr ''1.0k'') \<and>
   formatNumber example_engine (JNum (Fin 1000000)) None = Inr (JStr ''1.0M'') \<and>
   formatUtils_number example_engine (JNum (Fin 1000000)) None = Inr ''1.0M'' \<and>
   formatNumber_v1 example_engine (JNum (Fin 999)) = Inr ''999.0''"
proof -
  note t = formatNumber_scaling [of example_engine]
  have a: "formatNumber example_engine (JNum (Fin 1000)) None
      = as_str (with_suffix (toFixed example_engine (to_double (1000 / 1000)) 1) ''k'')"
    using t by simp
  have b: "formatNumber example_engine (JNum (Fin 1000000)) None
      = as_str (with_suffix (toFixed example_engine (to_double (1000000 / 1000000)) 1) ''M'')"
    using t by simp
  have c: "formatUtils_number example_engine (JNum (Fin 1000000)) None
      = with_suffix (toFixed example_engine (to_double (1000000 / 1000000)) 1) ''M''"
    using t by simp
  have d: "formatNumber_v1 example_engine (JNum (Fin 999)) = toFixed example_engine (Fin 999) 1"
    using t by simp
  have one: "to_double (1000 / 1000) = Fin 1" "to_double (1000000 / 1000000) = Fin 1"
    by (simp_all add: double_eval)
  show ?thesis unfolding a b c d one by (simp add: toFixed_eval)
qed

text \<open>
  The quotient is rounded before it is printed: 1150 / 1000 is the double just below
  1.15, so that 1150 prints as \<open>1.1k\<close>.
\<close>

lemma formatNumber_rounds_quotient:
  "formatNumber E (JNum (Fin 1150)) None = Inr (JStr ''1.1k'')"
  "formatUtils_number E (JNum (Fin 1150)) None = Inr ''1.1k''"
  "formatNumber_v1 E (JNum (Fin 1150)) = Inr ''1.1k''"
  by (simp_all add: formatUtils_number_def formatNumber_v1_def toFixed_eval double_eval)

subsection \<open>Percentages\<close>

text \<open>
  C9. \<open>formatPercentage\<close> multiplies by 100 exactly the numbers between 0 and 1, both
  included, and prints every other number as it is, each time with the requested
  decimals and a percent sign: 1 becomes \<open>100.0%\<close> and 1.5 becomes \<open>1.5%\<close>. The
  product is the double that the multiplication gives: for the double nearest to 0.0075
  it is 0.75, printed as \<open>0.8%\<close>, and for the double nearest to 0.015 it is 1.5, printed
  as \<open>2%\<close> with no decimals. The same holds for \<open>formatUtils.percentage\<close>.
\<close>

theorem formatPercentage_scales_unit_interval:
  "(\<forall>v d. 0 \<le> v \<and> v \<le> 1 \<longrightarrow>
      formatPercentage E (JNum (Fin v)) d
        = as_str (with_suffix (toFixed E (to_double (v * 100)) (decimals_or_default d)) ''%'') \<and>
      formatUtils_percentage E (JNum (Fin v)) d
        = with_suffix (toFixed E (to_double (v * 100)) (decimals_or_default d)) ''%'') \<and>
   (\<forall>v d. v < 0 \<or> 1 < v \<longrightarrow>
      formatPercentage E (JNum (Fin v)) d
        = as_str (with_suffix (toFixed E (Fin v) (decimals_or_default d)) ''%'') \<and>
      formatUtils_percentage E (JNum (Fin v)) d
        = with_suffix (toFixed E (Fin v) (decimals_or_default d)) ''%'') \<and>
   formatPercentage E (JNum (Fin 1)) None = Inr (JStr ''100.0%'') \<and>
   formatPercentage E (JNum (Fin (3 / 2))) None = Inr (JStr ''1.5%'') \<and>
   formatUtils_percentage E (JNum (Fin 1)) None = Inr ''100.0%'' \<and>
   formatUtils_percentage E (JNum (Fin (3 / 2))) None = Inr ''1.5%'' \<and>
   formatPercentage E (JNum (to_double (75 / 10000))) None = Inr (JStr ''0.8%'') \<and>
   formatUtils_percentage E (JNum (to_double (75 / 10000))) None = Inr ''0.8%'' \<and>
   formatPercentage E (JNum (to_double (15 / 1000))) (Some 0) = Inr (JStr ''2%'')"
proof -
  have inside: "formatPercentage E (JNum (Fin v)) d
        = as_str (with_suffix (toFixed E (to_double (v * 100)) (decimals_or_default d)) ''%'') \<and>
      formatUtils_percentage E (JNum (Fin v)) d
        = with_suffix (toFixed E (to_double (v * 100)) (decimals_or_default d)) ''%''"
    if "0 \<le> v \<and> v \<le> 1" for v d
    using that by (simp add: formatUtils_percentage_def del: toFixed.simps)
  have outside: "formatPercentage E (JNum (Fin v)) d
        = as_str (with_suffix (toFixed E (Fin v) (decimals_or_default d)) ''%'') \<and>
      formatUtils_percentage E (JNum (Fin v)) d
        = with_suffix (toFixed E (Fin v) (decimals_or_default d)) ''%''"
    if "v < 0 \<or> 1 < v" for v d
    using that by (auto simp add: formatUtils_percentage_def simp del: toFixed.simps)
  have ex: "formatPercentage E (JNum (Fin 1)) None = Inr (JStr ''100.0%'')"
    "formatPercentage E (JNum (Fin (3 / 2))) None = Inr (JStr ''1.5%'')"
    "formatUtils_percentage E (JNum (Fin 1)) None = Inr ''100.0%''"
    "formatUtils_percentage E (JNum (Fin (3 / 2))) None = Inr ''1.5%''"
    by (simp_all add: formatUtils_percentage_def toFixed_eval double_eval)
  have small: "to_double (75 / 10000) = Fin (1080863910568919 / 2 ^ 57)"
    "to_double (15 / 1000) = Fin (8646911284551352 / 2 ^ 59)"
    by (simp_all add: double_eval)
  have ex2: "formatPercentage E (JNum (to_double (75 / 10000))) None = Inr (JStr ''0.8%'')"
    "formatUtils_percentage E (JNum (to_double (75 / 10000))) None = Inr ''0.8%''"
    "formatPercentage E (JNum (to_double (15 / 1000))) (Some 0) = Inr (JStr ''2%'')"
    unfolding small by (simp_all add: formatUtils_percentage_def toFixed_eval double_eval)
  show ?thesis using inside outside ex ex2 by blast
qed

theorem formatPercentage_scales_unit_interval_witness:
  "(0::real) \<le> 1 / 4 \<and> (1 / 4::real) \<le> 1 \<and> ((5::real) < 0 \<or> (1::real) < 5) \<and>
   formatPercentage example_engine (JNum (Fin (1 / 4))) (Some 2) = Inr (JStr ''25.00%'') \<and>
   formatPercentage example_engine (JNum (Fin 5)) (Some 0) = Inr (JStr ''5%'') \<and>
   formatUtils_percentage example_engine (JNum (Fin (1 / 4))) None = Inr ''25.0%'' \<and>
   formatUtils_percentage example_engine (JNum (Fin 5)) None = Inr ''5.0%''"
proof -
  note t = formatPercentage_scales_unit_interval [of example_engine]
  have a: "formatPercentage example_engine (JNum (Fin (1 / 4))) (Some 2)
      = as_str (with_suffix (toFixed example_engine (to_double (1 / 4 * 100)) (decimals_or_default (Some 2))) ''%'')"
    "formatUtils_percentage example_engine (JNum (Fin (1 / 4))) None
      = with_suffix (toFixed example_engine (to_double (1 / 4 * 100)) (decimals_or_default None)) ''%''"
    using t [THEN conjunct1, rule_format, of "1 / 4"] by (simp_all del: toFixed.simps)
  have b: "formatPercentage example_engine (JNum (Fin 5)) (Some 0)
      = as_str (with_suffix (toFixed example_engine (Fin 5) (decimals_or_default (Some 0))) ''%'')"
    "formatUtils_percentage example_engine (JNum (Fin 5)) None
      = with_suffix (toFixed example_engine (Fin 5) (decimals_or_default None)) ''%''"
    using t [THEN conjunct2, THEN conjunct1, rule_format, of 5] by (simp_all del: toFixed.simps)
  have q: "to_double (1 / 4 * 100) = Fin 25"
    by (simp add: double_eval)
  show ?thesis unfolding a b q by (simp add: toFixed_eval)
qed

subsection \<open>File sizes\<close>

text \<open>
  C10. Both file-size formatters answer \<open>0 B\<close> for the number zero before any logarithm
  is taken, the core one for every falsy value; on a number, \<open>Math.log\<close> is never called
  with zero, and it is called (once, with the argument) for every nonzero number that is
  not NaN.
\<close>

theorem fileSize_zero_guard:
  "formatUtils_fileSize E (JNum (Fin 0)) = (Inr ''0 B'', []) \<and>
   formatFileSize E (JNum (Fin 0)) = (Inr ''0 B'', []) \<and>
   (\<forall>v. \<not> truthy v \<longrightarrow> formatFileSize E v = (Inr ''0 B'', [])) \<and>
   (\<forall>n. Fin 0 \<notin> set (snd (formatUtils_fileSize E (JNum n)))) \<and>
   (\<forall>n. Fin 0 \<notin> set (snd (formatFileSize E (JNum n)))) \<and>
   (\<forall>n. n \<noteq> Fin 0 \<longrightarrow> snd (formatUtils_fileSize E (JNum n)) = [n]) \<and>
   (\<forall>n. n \<noteq> Fin 0 \<and> n \<noteq> NaN \<longrightarrow> snd (formatFileSize E (JNum n)) = [n])"
proof -
  have a: "snd (formatFileSize E (JNum n)) = [n]" if "n \<noteq> Fin 0 \<and> n \<noteq> NaN" for n
    using that by (cases n) (simp_all add: formatFileSize_def)
  have b: "Fin 0 \<notin> set (snd (formatFileSize E (JNum n)))" for n
    by (cases n) (simp_all add: formatFileSize_def)
  show ?thesis using a b by (simp add: formatUtils_fileSize_def formatFileSize_def)
qed

theorem fileSize_zero_guard_witness:
  "\<not> truthy JNull \<and> formatFileSize example_engine JNull = (Inr ''0 B'', []) \<and>
   \<not> truthy (JStr []) \<and> formatFileSize example_engine (JStr []) = (Inr ''0 B'', []) \<and>
   Fin 2048 \<noteq> Fin 0 \<and> Fin 2048 \<noteq> NaN \<and>
   snd (formatFileSize example_engine (JNum (Fin 2048))) = [Fin 2048] \<and>
   snd (formatUtils_fileSize example_engine (JNum (Fin 2048))) = [Fin 2048] \<and>
   fst (formatFileSize example_engine (JNum (Fin 2048))) = Inr ''2.0 KB''"
proof -
  note t = fileSize_zero_guard [of example_engine]
  have a: "fst (formatFileSize example_engine (JNum (Fin 2048))) = Inr ''2.0 KB''"
    by (simp add: formatFileSize_def fileSize_scaled_def ilog1024_def sizes_def toFixed_eval
        double_eval)
  show ?thesis using t a by simp
qed

section \<open>The retrying request helper\<close>

lemma request_loop_resolves:
  assumes "rc \<le> maxRetries cfg" "attempt (net rc) = Inr d"
  shows "request_loop cfg net rc st ds
    = \<lparr>settled = Resolved d, state_after = st\<lparr>retryCount := 0\<rparr>, delays = ds\<rparr>"
  using assms by (simp add: request_loop.simps)

lemma request_loop_rejects:
  assumes "rc = maxRetries cfg" "attempt (net rc) = Inl msg"
  shows "request_loop cfg net rc st ds
    = \<lparr>settled = Rejected (maxRetries cfg) msg, state_after = st\<lparr>retryCount := rc + 1\<rparr>,
       delays = ds\<rparr>"
  using assms by (simp add: request_loop.simps)

lemma request_loop_retries:
  assumes "rc < maxRetries cfg" "attempt (net rc) = Inl msg"
  shows "request_loop cfg net rc st ds
    = request_loop cfg net (rc + 1) (st\<lparr>retryCount := rc + 1\<rparr>) (ds @ [2 ^ (rc + 1) * 1000])"
  using assms by (subst request_loop.simps) simp

lemma request_loop_step:
  assumes "fails (net rc)" "rc < maxRetries cfg" "rc' = rc + 1" "ds' = ds @ [2 ^ rc' * 1000]"
  shows "request_loop cfg net rc st ds = request_loop cfg net rc' (st\<lparr>retryCount := rc'\<rparr>) ds'"
proof -
  from assms(1) obtain msg where msg: "attempt (net rc) = Inl msg"
    by (auto simp: fails_def split: sum.splits)
  show ?thesis
    unfolding assms(3,4) using request_loop_retries [of rc cfg net msg st ds] assms(2) msg by simp
qed

lemma request_loop_delays:
  assumes "length ds = rc" "\<forall>i < length ds. ds ! i = 2 ^ (i + 1) * 1000"
  shows "\<forall>i < length (delays (request_loop cfg net rc st ds)).
           delays (request_loop cfg net rc st ds) ! i = 2 ^ (i + 1) * 1000"
  using assms
proof (induction cfg net rc st ds rule: request_loop.induct)
  case (1 cfg net rc st ds)
  show ?case
  proof (cases "rc < maxRetries cfg \<and> (\<exists>msg. attempt (net rc) = Inl msg)")
    case True
    then obtain msg where msg: "attempt (net rc) = Inl msg" and lt: "rc < maxRetries cfg"
      by blast
    let ?ds = "ds @ [2 ^ (rc + 1) * 1000]"
    have len: "length ?ds = rc + 1" using "1.prems"(1) by simp
    have ent: "\<forall>i < length ?ds. ?ds ! i = 2 ^ (i + 1) * 1000"
      using "1.prems" by (auto simp: nth_append less_Suc_eq)
    have "\<forall>i < length (delays (request_loop cfg net (rc + 1) (st\<lparr>retryCount := rc + 1\<rparr>) ?ds)).
            delays (request_loop cfg net (rc + 1) (st\<lparr>retryCount := rc + 1\<rparr>) ?ds) ! i
              = 2 ^ (i + 1) * 1000"
      using lt by (intro "1.IH" [OF _ msg _ len ent]) simp_all
    then show ?thesis by (simp only: request_loop_retries [of rc cfg net msg st ds, OF lt msg])
  next
    case False
    then have "delays (request_loop cfg net rc st ds) = ds"
      by (subst request_loop.simps) (auto split: sum.splits)
    then show ?thesis using "1.prems"(2) by simp
  qed
qed

lemma request_delay_nth:
  assumes "i < length (delays (request cfg net st))"
  shows "delays (request cfg net st) ! i = 2 ^ (i + 1) * 1000"
  using assms request_loop_delays [of "[]" 0 cfg net st] by (simp add: request_def)

text \<open>
  C1. When the first two calls of \<open>fetch\<close> fail and the third succeeds, the request
  resolves with the parsed response, the shared retry counter is 0 afterwards and the
  delays waited were 2000 and 4000 ms. When the first four calls fail, with three retries
  configured, it rejects with the one aggregated error, after delays of 2000, 4000 and
  8000 ms. In every run the delay after the \<open>k\<close>-th failure is \<open>2^k * 1000\<close> ms.
\<close>

theorem request_retries_with_backoff:
  "(fails (net 0) \<and> fails (net 1) \<and> attempt (net 2) = Inr d \<longrightarrow>
      request DASHBOARD_CONFIG net st
        = \<lparr>settled = Resolved d, state_after = st\<lparr>retryCount := 0\<rparr>, delays = [2000, 4000]\<rparr>) \<and>
   (fails (net 0) \<and> fails (net 1) \<and> fails (net 2) \<and> attempt (net 3) = Inl msg \<longrightarrow>
      request DASHBOARD_CONFIG net st
        = \<lparr>settled = Rejected 3 msg, state_after = st\<lparr>retryCount := 4\<rparr>,
           delays = [2000, 4000, 8000]\<rparr>) \<and>
   (\<forall>i < length (delays (request cfg net st)).
      delays (request cfg net st) ! i = 2 ^ (i + 1) * 1000)"
proof -
  let ?C = DASHBOARD_CONFIG
  have mr: "maxRetries ?C = 3" by (simp add: DASHBOARD_CONFIG_def)
  have run2: "request ?C net st = request_loop ?C net 2 (st\<lparr>retryCount := 2\<rparr>) [2000, 4000]"
    if h: "fails (net 0) \<and> fails (net 1)"
  proof -
    have "request ?C net st = request_loop ?C net 0 st []"
      by (simp add: request_def)
    also have "\<dots> = request_loop ?C net 1 (st\<lparr>retryCount := 1\<rparr>) [2000]"
      using h by (intro request_loop_step) (simp_all add: mr)
    also have "\<dots> = request_loop ?C net 2 (st\<lparr>retryCount := 1\<rparr>\<lparr>retryCount := 2\<rparr>) [2000, 4000]"
      using h by (intro request_loop_step) (simp_all add: mr)
    finally show ?thesis by simp
  qed
  have a: "request ?C net st
        = \<lparr>settled = Resolved d, state_after = st\<lparr>retryCount := 0\<rparr>, delays = [2000, 4000]\<rparr>"
    if h: "fails (net 0) \<and> fails (net 1) \<and> attempt (net 2) = Inr d"
  proof -
    have "request_loop ?C net 2 (st\<lparr>retryCount := 2\<rparr>) [2000, 4000]
        = \<lparr>settled = Resolved d, state_after = st\<lparr>retryCount := 2\<rparr>\<lparr>retryCount := 0\<rparr>,
           delays = [2000, 4000]\<rparr>"
      using h by (intro request_loop_resolves) (simp_all add: mr)
    then show ?thesis using h by (simp add: run2)
  qed
  have b: "request ?C net st
        = \<lparr>settled = Rejected 3 msg, state_after = st\<lparr>retryCount := 4\<rparr>,
           delays = [2000, 4000, 8000]\<rparr>"
    if h: "fails (net 0) \<and> fails (net 1) \<and> fails (net 2) \<and> attempt (net 3) = Inl msg"
  proof -
    have "request_loop ?C net 2 (st\<lparr>retryCount := 2\<rparr>) [2000, 4000]
        = request_loop ?C net 3 (st\<lparr>retryCount := 2\<rparr>\<lparr>retryCount := 3\<rparr>) [2000, 4000, 8000]"
      using h by (intro request_loop_step) (simp_all add: mr)
    also have "\<dots> = \<lparr>settled = Rejected (maxRetries ?C) msg,
          state_after = st\<lparr>retryCount := 2\<rparr>\<lparr>retryCount := 3\<rparr>\<lparr>retryCount := 3 + 1\<rparr>,
          delays = [2000, 4000, 8000]\<rparr>"
      using h by (intro request_loop_rejects) (simp_all add: mr)
    finally show ?thesis using h by (simp add: run2 mr)
  qed
  show ?thesis using a b request_delay_nth [of _ cfg net st] by blast
qed

theorem request_retries_with_backoff_witness:
  "fails (flaky_network 0) \<and> fails (flaky_network 1) \<and> attempt (flaky_network 2) = Inr ''data'' \<and>
   request DASHBOARD_CONFIG flaky_network initial_dashboardState
     = \<lparr>settled = Resolved ''data'', state_after = initial_dashboardState\<lparr>retryCount := 0\<rparr>,
        delays = [2000, 4000]\<rparr> \<and>
   fails (failing_network 0) \<and> fails (failing_network 1) \<and> fails (failing_network 2) \<and>
   attempt (failing_network 3) = Inl ''HTTP 500: Internal Server Error'' \<and>
   request DASHBOARD_CONFIG failing_network initial_dashboardState
     = \<lparr>settled = Rejected 3 ''HTTP 500: Internal Server Error'',
        state_after = initial_dashboardState\<lparr>retryCount := 4\<rparr>, delays = [2000, 4000, 8000]\<rparr> \<and>
   (1::nat) < length (delays (request DASHBOARD_CONFIG flaky_network initial_dashboardState)) \<and>
   delays (request DASHBOARD_CONFIG flaky_network initial_dashboardState) ! 1 = 4000"
proof -
  have f: "fails (flaky_network 0)" "fails (flaky_network 1)"
    "attempt (flaky_network 2) = Inr ''data''"
    by (simp_all add: fails_def attempt_def flaky_network_def ok_def)
  have g: "fails (failing_network 0)" "fails (failing_network 1)" "fails (failing_network 2)"
    "attempt (failing_network 3) = Inl ''HTTP 500: Internal Server Error''"
    by (simp_all add: fails_def attempt_def failing_network_def ok_def digits10.simps)
  note a = request_retries_with_backoff
    [of flaky_network "''data''" initial_dashboardState "''none''" DASHBOARD_CONFIG]
  note b = request_retries_with_backoff
    [of failing_network "''none''" initial_dashboardState "''HTTP 500: Internal Server Error''"
      DASHBOARD_CONFIG]
  have ra: "request DASHBOARD_CONFIG flaky_network initial_dashboardState
     = \<lparr>settled = Resolved ''data'', state_after = initial_dashboardState\<lparr>retryCount := 0\<rparr>,
        delays = [2000, 4000]\<rparr>"
    using a f by blast
  have rb: "request DASHBOARD_CONFIG failing_network initial_dashboardState
     = \<lparr>settled = Rejected 3 ''HTTP 500: Internal Server Error'',
        state_after = initial_dashboardState\<lparr>retryCount := 4\<rparr>, delays = [2000, 4000, 8000]\<rparr>"
    using b g by blast
  have len: "(1::nat) < length (delays (request DASHBOARD_CONFIG flaky_network initial_dashboardState))"
    by (simp add: ra)
  have nth: "delays (request DASHBOARD_CONFIG flaky_network initial_dashboardState) ! 1 = 4000"
    using a len by (simp add: ra)
  show ?thesis using f g ra rb len nth by simp
qed

section \<open>The maps and charts modules\<close>

lemma requests_renderBuildingsOnMap:
  "renderBuildingsOnMap w p = Inr w' \<Longrightarrow> requests w' = requests w \<and> dom w' = dom w"
  by (auto simp: renderBuildingsOnMap_def Let_def split: option.splits if_splits)

lemma requests_handle_response:
  assumes "\<And>v p v'. render v p = Inr v' \<Longrightarrow> requests v' = requests v"
  shows "requests (handle_response label render w out) = requests w"
  using assms
  by (auto simp: handle_response_def split: fetch_outcome.splits body.splits option.splits sum.splits)

lemma requests_showBuildingsView:
  "requests (showBuildingsView net w) = requests w @ [buildings_url (dom w)]"
  unfolding showBuildingsView_def Let_def
  by (subst requests_handle_response) (auto dest: requests_renderBuildingsOnMap)

text \<open>
  C5. The buildings request is built from the controls as they stand: after the density
  slider is moved to 50, with the type selector untouched at \<open>t\<close> (not empty, as the
  value of every option of the selector), the next request is for \<open>density=50\<close> and
  \<open>type=t\<close>. Each control falls back on its own: a missing density slider gives density
  100 whatever the type selector holds, a missing type selector gives type \<open>all\<close>
  whatever the slider holds, also right after the slider was moved, and with both
  missing the request is for density 100 and type \<open>all\<close>. In every case each of the two
  parameters is the value of its control, or the default when the control is missing or
  its value is empty.
\<close>

theorem buildings_url_follows_controls:
  "(dom w ''map-density'' = Some slider \<and> dom w ''map-type-filter'' = Some sel \<and>
    el_value sel = t \<and> t \<noteq> [] \<and> dom w ''density-display'' = Some disp \<longrightarrow>
      (\<exists>w'. slider_changed net ''50'' w = Inr w' \<and>
            requests w' = requests w @ [''/api/map/buildings?density=50&type='' @ t])) \<and>
   (dom w ''map-density'' = None \<and> dom w ''map-type-filter'' = None \<longrightarrow>
      requests (showBuildingsView net w) = requests w @ [''/api/map/buildings?density=100&type=all'']) \<and>
   (dom w ''map-density'' = None \<and> dom w ''map-type-filter'' = Some sel \<and>
    el_value sel = t \<and> t \<noteq> [] \<longrightarrow>
      requests (showBuildingsView net w)
        = requests w @ [''/api/map/buildings?density=100&type='' @ t]) \<and>
   (dom w ''map-density'' = Some slider \<and> el_value slider = v \<and> v \<noteq> [] \<and>
    dom w ''map-type-filter'' = None \<longrightarrow>
      requests (showBuildingsView net w)
        = requests w @ [''/api/map/buildings?density='' @ v @ ''&type=all'']) \<and>
   (dom w ''map-density'' = Some slider \<and> dom w ''map-type-filter'' = None \<and>
    dom w ''density-display'' = Some disp \<longrightarrow>
      (\<exists>w'. slider_changed net ''50'' w = Inr w' \<and>
            requests w' = requests w @ [''/api/map/buildings?density=50&type=all''])) \<and>
   requests (showBuildingsView net w)
     = requests w @
       [''/api/map/buildings?density=''
          @ (case dom w ''map-density'' of
               None \<Rightarrow> ''100''
             | Some e \<Rightarrow> if el_value e = [] then ''100'' else el_value e)
          @ ''&type=''
          @ (case dom w ''map-type-filter'' of
               None \<Rightarrow> ''all''
             | Some e \<Rightarrow> if el_value e = [] then ''all'' else el_value e)]"
proof -
  have g: "requests (showBuildingsView net w)
     = requests w @
       [''/api/map/buildings?density=''
          @ (case dom w ''map-density'' of
               None \<Rightarrow> ''100''
             | Some e \<Rightarrow> if el_value e = [] then ''100'' else el_value e)
          @ ''&type=''
          @ (case dom w ''map-type-filter'' of
               None \<Rightarrow> ''all''
             | Some e \<Rightarrow> if el_value e = [] then ''all'' else el_value e)]"
    by (simp add: requests_showBuildingsView buildings_url_def value_or_def)
  have c: "requests (showBuildingsView net w)
        = requests w @ [''/api/map/buildings?density=100&type='' @ t]"
    if "dom w ''map-density'' = None \<and> dom w ''map-type-filter'' = Some sel \<and>
      el_value sel = t \<and> t \<noteq> []"
    using that by (auto simp: g)
  have d: "requests (showBuildingsView net w)
        = requests w @ [''/api/map/buildings?density='' @ v @ ''&type=all'']"
    if "dom w ''map-density'' = Some slider \<and> el_value slider = v \<and> v \<noteq> [] \<and>
      dom w ''map-type-filter'' = None"
    using that by (auto simp: g)
  have e: "\<exists>w'. slider_changed net ''50'' w = Inr w' \<and>
            requests w' = requests w @ [''/api/map/buildings?density=50&type=all'']"
    if h: "dom w ''map-density'' = Some slider \<and> dom w ''map-type-filter'' = None \<and>
      dom w ''density-display'' = Some disp"
  proof -
    let ?w1 = "set_control ''map-density'' ''50'' w"
    let ?w2 = "?w1\<lparr>dom := (dom ?w1)(''density-display'' \<mapsto> disp\<lparr>textContent := ''50''\<rparr>)\<rparr>"
    have d1: "dom ?w1 = (dom w)(''map-density'' \<mapsto> slider\<lparr>el_value := ''50''\<rparr>)"
      "requests ?w1 = requests w"
      using h by (simp_all add: set_control_def)
    have s: "slider_changed net ''50'' w = Inr (showBuildingsView net ?w2)"
      using h d1 by (simp add: slider_changed_def updateMapDensity_def)
    have u: "buildings_url (dom ?w2) = ''/api/map/buildings?density=50&type=all''"
      using h d1 by (simp add: buildings_url_def value_or_def)
    have "requests (showBuildingsView net ?w2) = requests w @ [''/api/map/buildings?density=50&type=all'']"
      by (simp only: requests_showBuildingsView u) (simp add: d1)
    with s show ?thesis by blast
  qed
  have a: "\<exists>w'. slider_changed net ''50'' w = Inr w' \<and>
            requests w' = requests w @ [''/api/map/buildings?density=50&type='' @ t]"
    if h: "dom w ''map-density'' = Some slider \<and> dom w ''map-type-filter'' = Some sel \<and>
      el_value sel = t \<and> t \<noteq> [] \<and> dom w ''density-display'' = Some disp"
  proof -
    let ?w1 = "set_control ''map-density'' ''50'' w"
    let ?w2 = "?w1\<lparr>dom := (dom ?w1)(''density-display'' \<mapsto> disp\<lparr>textContent := ''50''\<rparr>)\<rparr>"
    have d1: "dom ?w1 = (dom w)(''map-density'' \<mapsto> slider\<lparr>el_value := ''50''\<rparr>)"
      "requests ?w1 = requests w"
      using h by (simp_all add: set_control_def)
    have s: "slider_changed net ''50'' w = Inr (showBuildingsView net ?w2)"
      using h d1 by (simp add: slider_changed_def updateMapDensity_def)
    have u: "buildings_url (dom ?w2) = ''/api/map/buildings?density=50&type='' @ t"
      using h d1 by (simp add: buildings_url_def value_or_def)
    have "requests (showBuildingsView net ?w2) = requests w @ [''/api/map/buildings?density=50&type='' @ t]"
      by (simp only: requests_showBuildingsView u) (simp add: d1)
    with s show ?thesis by blast
  qed
  have b: "requests (showBuildingsView net w) = requests w @ [''/api/map/buildings?density=100&type=all'']"
    if "dom w ''map-density'' = None \<and> dom w ''map-type-filter'' = None"
    using that by (simp add: requests_showBuildingsView buildings_url_def value_or_def)
  show ?thesis using a b c d e g by blast
qed

theorem buildings_url_follows_controls_witness:
  "dom buildings_page ''map-density'' = Some (blank_element\<lparr>el_type := ''range'', el_value := ''100''\<rparr>) \<and>
   dom buildings_page ''map-type-filter'' = Some (blank_element\<lparr>el_value := ''office''\<rparr>) \<and>
   el_value (blank_element\<lparr>el_value := ''office''\<rparr>) = ''office'' \<and> ''office'' \<noteq> [] \<and>
   dom buildings_page ''density-display'' = Some (blank_element\<lparr>textContent := ''100''\<rparr>) \<and>
   (\<exists>w'. slider_changed offline ''50'' buildings_page = Inr w' \<and>
         requests w' = [''/api/map/buildings?density=50&type=office'']) \<and>
   dom (buildings_page\<lparr>dom := Map.empty\<rparr>) ''map-density'' = None \<and>
   dom (buildings_page\<lparr>dom := Map.empty\<rparr>) ''map-type-filter'' = None \<and>
   requests (showBuildingsView offline (buildings_page\<lparr>dom := Map.empty\<rparr>))
     = [''/api/map/buildings?density=100&type=all''] \<and>
   dom (buildings_page\<lparr>dom := (dom buildings_page)(''map-density'' := None)\<rparr>) ''map-density'' = None \<and>
   dom (buildings_page\<lparr>dom := (dom buildings_page)(''map-density'' := None)\<rparr>) ''map-type-filter''
     = Some (blank_element\<lparr>el_value := ''office''\<rparr>) \<and>
   requests (showBuildingsView offline
       (buildings_page\<lparr>dom := (dom buildings_page)(''map-density'' := None)\<rparr>))
     = [''/api/map/buildings?density=100&type=office''] \<and>
   dom (buildings_page\<lparr>dom := [''map-density'' \<mapsto> blank_element\<lparr>el_value := ''70''\<rparr>]\<rparr>) ''map-density''
     = Some (blank_element\<lparr>el_value := ''70''\<rparr>) \<and>
   el_value (blank_element\<lparr>el_value := ''70''\<rparr>) = ''70'' \<and> ''70'' \<noteq> [] \<and>
   dom (buildings_page\<lparr>dom := [''map-density'' \<mapsto> blank_element\<lparr>el_value := ''70''\<rparr>]\<rparr>) ''map-type-filter''
     = None \<and>
   requests (showBuildingsView offline
       (buildings_page\<lparr>dom := [''map-density'' \<mapsto> blank_element\<lparr>el_value := ''70''\<rparr>]\<rparr>))
     = [''/api/map/buildings?density=70&type=all''] \<and>
   dom (buildings_page\<lparr>dom := (dom buildings_page)(''map-type-filter'' := None)\<rparr>) ''map-density''
     = Some (blank_element\<lparr>el_type := ''range'', el_value := ''100''\<rparr>) \<and>
   dom (buildings_page\<lparr>dom := (dom buildings_page)(''map-type-filter'' := None)\<rparr>) ''map-type-filter''
     = None \<and>
   dom (buildings_page\<lparr>dom := (dom buildings_page)(''map-type-filter'' := None)\<rparr>) ''density-display''
     = Some (blank_element\<lparr>textContent := ''100''\<rparr>) \<and>
   (\<exists>w'. slider_changed offline ''50''
           (buildings_page\<lparr>dom := (dom buildings_page)(''map-type-filter'' := None)\<rparr>) = Inr w' \<and>
         requests w' = [''/api/map/buildings?density=50&type=all''])"
proof -
  let ?slider = "blank_element\<lparr>el_type := ''range'', el_value := ''100''\<rparr>"
  let ?sel = "blank_element\<lparr>el_value := ''office''\<rparr>"
  let ?disp = "blank_element\<lparr>textContent := ''100''\<rparr>"
  let ?none = "buildings_page\<lparr>dom := Map.empty\<rparr>"
  let ?noslider = "buildings_page\<lparr>dom := (dom buildings_page)(''map-density'' := None)\<rparr>"
  let ?only = "buildings_page\<lparr>dom := [''map-density'' \<mapsto> blank_element\<lparr>el_value := ''70''\<rparr>]\<rparr>"
  let ?nofilter = "buildings_page\<lparr>dom := (dom buildings_page)(''map-type-filter'' := None)\<rparr>"
  have p: "dom buildings_page ''map-density'' = Some ?slider"
    "dom buildings_page ''map-type-filter'' = Some ?sel"
    "dom buildings_page ''density-display'' = Some ?disp"
    "requests buildings_page = []"
    by (simp_all add: buildings_page_def)
  have q: "dom ?noslider ''map-density'' = None" "dom ?noslider ''map-type-filter'' = Some ?sel"
    "dom ?only ''map-density'' = Some (blank_element\<lparr>el_value := ''70''\<rparr>)"
    "dom ?only ''map-type-filter'' = None"
    "dom ?nofilter ''map-density'' = Some ?slider" "dom ?nofilter ''map-type-filter'' = None"
    "dom ?nofilter ''density-display'' = Some ?disp"
    "requests ?noslider = []" "requests ?only = []" "requests ?nofilter = []"
    by (simp_all add: buildings_page_def)
  note a = buildings_url_follows_controls
    [where w = buildings_page and slider = ?slider and sel = ?sel and t = "''office''"
      and disp = ?disp and net = offline and v = "''100''"]
  note b = buildings_url_follows_controls
    [where w = ?none and slider = ?slider and sel = ?sel and t = "''office''"
      and disp = ?disp and net = offline and v = "''100''"]
  note c = buildings_url_follows_controls
    [where w = ?noslider and slider = ?slider and sel = ?sel and t = "''office''"
      and disp = ?disp and net = offline and v = "''100''"]
  note d = buildings_url_follows_controls
    [where w = ?only and slider = "blank_element\<lparr>el_value := ''70''\<rparr>" and sel = ?sel
      and t = "''office''" and disp = ?disp and net = offline and v = "''70''"]
  note e = buildings_url_follows_controls
    [where w = ?nofilter and slider = ?slider and sel = ?sel and t = "''office''"
      and disp = ?disp and net = offline and v = "''100''"]
  have a': "\<exists>w'. slider_changed offline ''50'' buildings_page = Inr w' \<and>
         requests w' = [''/api/map/buildings?density=50&type=office'']"
    using a p by simp
  have b': "requests (showBuildingsView offline ?none) = [''/api/map/buildings?density=100&type=all'']"
    using b p by simp
  have c': "requests (showBuildingsView offline ?noslider)
      = [''/api/map/buildings?density=100&type=office'']"
    using c q(1,2,8) by simp
  have d': "requests (showBuildingsView offline ?only) = [''/api/map/buildings?density=70&type=all'']"
    using d q(3,4,9) by simp
  have e': "\<exists>w'. slider_changed offline ''50'' ?nofilter = Inr w' \<and>
         requests w' = [''/api/map/buildings?density=50&type=all'']"
    using e q(5,6,7,10) by simp
  show ?thesis using p q(1-7) a' b' c' d' e' by simp
qed

subsection \<open>Failed and unsuccessful responses\<close>

lemma handle_response_failure:
  assumes "out = Rejects msg \<or> (\<exists>r. out = Responds r \<and> body r = NotJson msg)"
  shows "handle_response label render w out = w\<lparr>console := console w @ [Error label msg]\<rparr>"
  using assms by (auto simp: handle_response_def)

lemma handle_response_unsuccessful:
  assumes "out = Responds r" "body r = Json (Some env)" "\<not> success env"
  shows "handle_response label render w out = w"
  using assms by (simp add: handle_response_def)

lemma handle_response_ignores_status:
  "handle_response label render w (Responds (r\<lparr>status := s, statusText := t\<rparr>))
     = handle_response label render w (Responds r)"
  by (simp add: handle_response_def)

text \<open>
  C4, as far as it holds. In \<open>showBuildingsView\<close> and \<open>updateConsumptionCharts\<close>: when
  \<open>fetch\<close> rejects or the body is not JSON, the failure is caught, one error is logged
  under the routine's label, and apart from that and the recorded request the page is as
  before, so no renderer has run. The status of the response is never looked at: the same
  body is handled the same way under any status. When the envelope says
  \<open>success: false\<close>, no renderer runs either and the page is as before, but nothing is
  logged.
\<close>

theorem fetch_failure_keeps_view:
  "((net (buildings_url (dom w)) = Rejects msg \<or>
     (\<exists>r. net (buildings_url (dom w)) = Responds r \<and> body r = NotJson msg)) \<longrightarrow>
      showBuildingsView net w
        = w\<lparr>requests := requests w @ [buildings_url (dom w)],
            console := console w @ [Error ''Erreur affichage batiments:'' msg]\<rparr>) \<and>
   ((net (buildings_url (dom w)) = Responds r \<and> body r = Json (Some env) \<and> \<not> success env) \<longrightarrow>
      showBuildingsView net w = w\<lparr>requests := requests w @ [buildings_url (dom w)]\<rparr>) \<and>
   ((cnet (consumption_url (dom w)) = Rejects msg \<or>
     (\<exists>r. cnet (consumption_url (dom w)) = Responds r \<and> body r = NotJson msg)) \<longrightarrow>
      updateConsumptionCharts cnet w
        = w\<lparr>requests := requests w @ [consumption_url (dom w)],
            console := console w @ [Error ''Erreur mise a jour graphiques:'' msg]\<rparr>) \<and>
   ((cnet (consumption_url (dom w)) = Responds cr \<and> body cr = Json (Some cenv) \<and> \<not> success cenv) \<longrightarrow>
      updateConsumptionCharts cnet w = w\<lparr>requests := requests w @ [consumption_url (dom w)]\<rparr>) \<and>
   showBuildingsView (\<lambda>url. Responds (r\<lparr>status := s, statusText := t\<rparr>)) w
     = showBuildingsView (\<lambda>url. Responds r) w \<and>
   updateConsumptionCharts (\<lambda>url. Responds (cr\<lparr>status := s, statusText := t\<rparr>)) w
     = updateConsumptionCharts (\<lambda>url. Responds cr) w"
proof -
  have a: "showBuildingsView net w
        = w\<lparr>requests := requests w @ [buildings_url (dom w)],
            console := console w @ [Error ''Erreur affichage batiments:'' msg]\<rparr>"
    if "net (buildings_url (dom w)) = Rejects msg \<or>
     (\<exists>r. net (buildings_url (dom w)) = Responds r \<and> body r = NotJson msg)"
    using handle_response_failure [OF that] by (simp add: showBuildingsView_def Let_def)
  have b: "showBuildingsView net w = w\<lparr>requests := requests w @ [buildings_url (dom w)]\<rparr>"
    if "net (buildings_url (dom w)) = Responds r \<and> body r = Json (Some env) \<and> \<not> success env"
    using that handle_response_unsuccessful [of "net (buildings_url (dom w))" r env]
    by (simp add: showBuildingsView_def Let_def)
  have c: "updateConsumptionCharts cnet w
        = w\<lparr>requests := requests w @ [consumption_url (dom w)],
            console := console w @ [Error ''Erreur mise a jour graphiques:'' msg]\<rparr>"
    if "cnet (consumption_url (dom w)) = Rejects msg \<or>
     (\<exists>r. cnet (consumption_url (dom w)) = Responds r \<and> body r = NotJson msg)"
    using handle_response_failure [OF that] by (simp add: updateConsumptionCharts_def Let_def)
  have d: "updateConsumptionCharts cnet w = w\<lparr>requests := requests w @ [consumption_url (dom w)]\<rparr>"
    if "cnet (consumption_url (dom w)) = Responds cr \<and> body cr = Json (Some cenv) \<and> \<not> success cenv"
    using that handle_response_unsuccessful [of "cnet (consumption_url (dom w))" cr cenv]
    by (simp add: updateConsumptionCharts_def Let_def)
  have e: "showBuildingsView (\<lambda>url. Responds (r\<lparr>status := s, statusText := t\<rparr>)) w
     = showBuildingsView (\<lambda>url. Responds r) w"
    "updateConsumptionCharts (\<lambda>url. Responds (cr\<lparr>status := s, statusText := t\<rparr>)) w
     = updateConsumptionCharts (\<lambda>url. Responds cr) w"
    by (simp_all add: showBuildingsView_def updateConsumptionCharts_def Let_def
        handle_response_ignores_status)
  show ?thesis using a b c d e by blast
qed

theorem fetch_failure_keeps_view_witness:
  "(offline :: map_data api) (buildings_url (dom buildings_page)) = Rejects ''Failed to fetch'' \<and>
   showBuildingsView offline buildings_page
     = buildings_page\<lparr>requests := [''/api/map/buildings?density=100&type=office''],
         console := [Error ''Erreur affichage batiments:'' ''Failed to fetch'']\<rparr> \<and>
   answers 500 (Some \<lparr>success = False, payload = Some one_building\<rparr>) (buildings_url (dom buildings_page))
     = Responds \<lparr>status = 500, statusText = [],
         body = Json (Some \<lparr>success = False, payload = Some one_building\<rparr>)\<rparr> \<and>
   showBuildingsView (answers 500 (Some \<lparr>success = False, payload = Some one_building\<rparr>)) buildings_page
     = buildings_page\<lparr>requests := [''/api/map/buildings?density=100&type=office'']\<rparr> \<and>
   (offline :: consumption_charts api) (consumption_url (dom buildings_page))
     = Rejects ''Failed to fetch'' \<and>
   updateConsumptionCharts offline buildings_page
     = buildings_page\<lparr>requests := [''/api/charts/consumption?range=7d&type=all''],
         console := [Error ''Erreur mise a jour graphiques:'' ''Failed to fetch'']\<rparr> \<and>
   updateConsumptionCharts (answers 200 (Some \<lparr>success = False, payload = None\<rparr>)) buildings_page
     = buildings_page\<lparr>requests := [''/api/charts/consumption?range=7d&type=all'']\<rparr>"
proof -
  have u: "buildings_url (dom buildings_page) = ''/api/map/buildings?density=100&type=office''"
    "consumption_url (dom buildings_page) = ''/api/charts/consumption?range=7d&type=all''"
    "requests buildings_page = []" "console buildings_page = []"
    by (simp_all add: buildings_page_def buildings_url_def consumption_url_def value_or_def
        blank_element_def)
  let ?no = "\<lparr>success = False, payload = Some one_building\<rparr>"
  let ?cno = "\<lparr>success = False, payload = None :: consumption_charts option\<rparr>"
  note t1 = fetch_failure_keeps_view
    [where net = offline and w = buildings_page and msg = "''Failed to fetch''"
      and r = "\<lparr>status = 500, statusText = [], body = Json (Some ?no)\<rparr>" and env = ?no
      and cnet = offline and cr = "\<lparr>status = 200, statusText = [], body = Json (Some ?cno)\<rparr>"
      and cenv = ?cno and s = 0 and t = "[]"]
  note t2 = fetch_failure_keeps_view
    [where net = "answers 500 (Some ?no)" and w = buildings_page and msg = "''Failed to fetch''"
      and r = "\<lparr>status = 500, statusText = [], body = Json (Some ?no)\<rparr>" and env = ?no
      and cnet = "answers 200 (Some ?cno)"
      and cr = "\<lparr>status = 200, statusText = [], body = Json (Some ?cno)\<rparr>"
      and cenv = ?cno and s = 0 and t = "[]"]
  have o: "(offline :: map_data api) (buildings_url (dom buildings_page)) = Rejects ''Failed to fetch''"
    "(offline :: consumption_charts api) (consumption_url (dom buildings_page))
       = Rejects ''Failed to fetch''"
    by (simp_all add: offline_def)
  have n: "answers 500 (Some ?no) (buildings_url (dom buildings_page))
     = Responds \<lparr>status = 500, statusText = [], body = Json (Some ?no)\<rparr>"
    "answers 200 (Some ?cno) (consumption_url (dom buildings_page))
     = Responds \<lparr>status = 200, statusText = [], body = Json (Some ?cno)\<rparr>"
    by (simp_all add: answers_def)
  have "showBuildingsView offline buildings_page
     = buildings_page\<lparr>requests := requests buildings_page @ [buildings_url (dom buildings_page)],
         console := console buildings_page @ [Error ''Erreur affichage batiments:'' ''Failed to fetch'']\<rparr>"
    using t1 o(1) by blast
  then have a: "showBuildingsView offline buildings_page
     = buildings_page\<lparr>requests := [''/api/map/buildings?density=100&type=office''],
         console := [Error ''Erreur affichage batiments:'' ''Failed to fetch'']\<rparr>"
    by (simp add: u)
  have "showBuildingsView (answers 500 (Some ?no)) buildings_page
     = buildings_page\<lparr>requests := requests buildings_page @ [buildings_url (dom buildings_page)]\<rparr>"
    using t2 n(1) by simp
  then have b: "showBuildingsView (answers 500 (Some ?no)) buildings_page
     = buildings_page\<lparr>requests := [''/api/map/buildings?density=100&type=office'']\<rparr>"
    by (simp add: u)
  have "updateConsumptionCharts offline buildings_page
     = buildings_page\<lparr>requests := requests buildings_page @ [consumption_url (dom buildings_page)],
         console := console buildings_page @ [Error ''Erreur mise a jour graphiques:'' ''Failed to fetch'']\<rparr>"
    using t1 o(2) by blast
  then have c: "updateConsumptionCharts offline buildings_page
     = buildings_page\<lparr>requests := [''/api/charts/consumption?range=7d&type=all''],
         console := [Error ''Erreur mise a jour graphiques:'' ''Failed to fetch'']\<rparr>"
    by (simp add: u)
  have "updateConsumptionCharts (answers 200 (Some ?cno)) buildings_page
     = buildings_page\<lparr>requests := requests buildings_page @ [consumption_url (dom buildings_page)]\<rparr>"
    using t2 n(2) by simp
  then have d: "updateConsumptionCharts (answers 200 (Some ?cno)) buildings_page
     = buildings_page\<lparr>requests := [''/api/charts/consumption?range=7d&type=all'']\<rparr>"
    by (simp add: u)
  show ?thesis using o(1) o(2) n(1) a b c d by simp
qed

text \<open>
  The claim as written fails: an envelope with \<open>success: false\<close> is not handled like a
  network failure, since nothing is logged; and a response with status 500 whose body
  says \<open>success: true\<close> is rendered.
\<close>

theorem unsuccessful_envelope_not_logged_counterexample:
  "console (showBuildingsView offline buildings_page)
     = [Error ''Erreur affichage batiments:'' ''Failed to fetch''] \<and>
   console (showBuildingsView (answers 200 (Some \<lparr>success = False, payload = Some one_building\<rparr>))
      buildings_page) = [] \<and>
   map_layers buildings_page = [TileLayer ''openstreetmap''] \<and>
   map_layers (showBuildingsView (answers 500 (Some \<lparr>success = True, payload = Some one_building\<rparr>))
      buildings_page)
     = [TileLayer ''openstreetmap'', circleMarker kl_tower]"
  by (simp add: showBuildingsView_def handle_response_def offline_def answers_def Let_def
      buildings_page_def renderBuildingsOnMap_def initial_state_def osm_map_def one_building_def
      map_layers_def digits10.simps)

subsection \<open>Rendering twice\<close>

lemma filter_circle_markers [simp]:
  "filter is_CircleMarker (map circleMarker ms) = map circleMarker ms"
  "filter (\<lambda>l. \<not> is_CircleMarker l) (map circleMarker ms) = []"
  by (induction ms) (simp_all add: circleMarker_def)

lemma renderBuildingsOnMap_layers:
  assumes "map_widget (state w) = Some m" "markers md = Some ms"
  shows "\<exists>w'. renderBuildingsOnMap w (Some md) = Inr w' \<and>
           map_layers w' = filter (\<lambda>l. \<not> is_CircleMarker l) (layers m) @ map circleMarker ms"
  using assms
  by (auto simp: renderBuildingsOnMap_def map_layers_def Let_def split: option.splits)

lemma renderBuildingsOnMap_some_map:
  assumes "map_widget (state w) = Some m" "renderBuildingsOnMap w (Some md) = Inr w'"
  shows "\<exists>m'. map_widget (state w') = Some m' \<and>
           filter (\<lambda>l. \<not> is_CircleMarker l) (layers m') = filter (\<lambda>l. \<not> is_CircleMarker l) (layers m)"
  using assms
  by (auto simp: renderBuildingsOnMap_def Let_def split: option.splits if_splits)

lemma renderConsumptionHeatmap_layers:
  assumes "map_widget (state w) = Some m" "heatmap_points hmd = Some ps"
  shows "\<exists>w'. renderConsumptionHeatmap w (Some hmd) = Inr w' \<and>
           map_layers w' = filter (\<lambda>l. \<not> (is_CircleMarker l \<or> is_HeatLayer l)) (layers m)
              @ (if ps = [] then [] else [heatLayer ps])"
  using assms
  by (auto simp: renderConsumptionHeatmap_def map_layers_def Let_def split: option.splits)

lemma renderConsumptionHeatmap_some_map:
  assumes "map_widget (state w) = Some m" "renderConsumptionHeatmap w (Some hmd) = Inr w'"
  shows "\<exists>m'. map_widget (state w') = Some m' \<and>
           filter (\<lambda>l. \<not> (is_CircleMarker l \<or> is_HeatLayer l)) (layers m')
             = filter (\<lambda>l. \<not> (is_CircleMarker l \<or> is_HeatLayer l)) (layers m)"
  using assms
  by (auto simp: renderConsumptionHeatmap_def Let_def heatLayer_def split: option.splits if_splits)

lemma render_twice_total:
  "\<exists>w1. renderBuildingsOnMap w (Some md) = Inr w1"
  "\<exists>w1. renderConsumptionHeatmap w (Some hmd) = Inr w1"
  by (auto simp: renderBuildingsOnMap_def renderConsumptionHeatmap_def Let_def split: option.splits)

text \<open>
  C3, as far as it holds. With the map created and a second payload that carries its
  \<open>markers\<close>, two calls of \<open>renderBuildingsOnMap\<close> leave as circle markers exactly the
  markers of the second payload, and the tile layers as they were. With a second payload
  that carries its \<open>heatmap_points\<close>, two calls of \<open>renderConsumptionHeatmap\<close> leave
  no circle marker, the heat layer of the second payload as the only heat layer (none
  when the list is empty), and the other layers as they were. A payload without the field
  changes nothing. Drawing a chart twice in one element is the same as drawing the second
  chart alone.
\<close>

theorem second_render_replaces_first:
  "(map_widget (state w) = Some m \<and> markers md2 = Some ms2 \<longrightarrow>
      (\<exists>w2. render_twice renderBuildingsOnMap w md1 md2 = Inr w2 \<and>
            filter is_CircleMarker (map_layers w2) = map circleMarker ms2 \<and>
            filter (\<lambda>l. \<not> is_CircleMarker l \<and> \<not> is_HeatLayer l) (map_layers w2)
              = filter (\<lambda>l. \<not> is_CircleMarker l \<and> \<not> is_HeatLayer l) (layers m))) \<and>
   (map_widget (state w) = Some m \<and> heatmap_points hmd2 = Some ps2 \<longrightarrow>
      (\<exists>w2. render_twice renderConsumptionHeatmap w hmd1 hmd2 = Inr w2 \<and>
            filter is_CircleMarker (map_layers w2) = [] \<and>
            filter is_HeatLayer (map_layers w2) = (if ps2 = [] then [] else [heatLayer ps2]) \<and>
            filter (\<lambda>l. \<not> is_CircleMarker l \<and> \<not> is_HeatLayer l) (map_layers w2)
              = filter (\<lambda>l. \<not> is_CircleMarker l \<and> \<not> is_HeatLayer l) (layers m))) \<and>
   (markers md = None \<longrightarrow> renderBuildingsOnMap w (Some md) = Inr w) \<and>
   (heatmap_points hmd = None \<longrightarrow> renderConsumptionHeatmap w (Some hmd) = Inr w) \<and>
   renderPlotlyChart elementId c2 (renderPlotlyChart elementId c1 w) = renderPlotlyChart elementId c2 w"
proof -
  have a: "\<exists>w2. render_twice renderBuildingsOnMap w md1 md2 = Inr w2 \<and>
            filter is_CircleMarker (map_layers w2) = map circleMarker ms2 \<and>
            filter (\<lambda>l. \<not> is_CircleMarker l \<and> \<not> is_HeatLayer l) (map_layers w2)
              = filter (\<lambda>l. \<not> is_CircleMarker l \<and> \<not> is_HeatLayer l) (layers m)"
    if h: "map_widget (state w) = Some m \<and> markers md2 = Some ms2"
  proof -
    obtain w1 where w1: "renderBuildingsOnMap w (Some md1) = Inr w1"
      using render_twice_total(1) by blast
    obtain m1 where m1: "map_widget (state w1) = Some m1"
      "filter (\<lambda>l. \<not> is_CircleMarker l) (layers m1) = filter (\<lambda>l. \<not> is_CircleMarker l) (layers m)"
      using renderBuildingsOnMap_some_map h w1 by blast
    obtain w2 where w2: "renderBuildingsOnMap w1 (Some md2) = Inr w2"
      "map_layers w2 = filter (\<lambda>l. \<not> is_CircleMarker l) (layers m1) @ map circleMarker ms2"
      using renderBuildingsOnMap_layers m1(1) h by blast
    have keep: "filter (\<lambda>l. \<not> is_CircleMarker l \<and> \<not> is_HeatLayer l) (layers m1)
        = filter (\<lambda>l. \<not> is_CircleMarker l \<and> \<not> is_HeatLayer l) (layers m)"
    proof -
      have "filter (\<lambda>l. \<not> is_HeatLayer l) (filter (\<lambda>l. \<not> is_CircleMarker l) (layers m1))
          = filter (\<lambda>l. \<not> is_HeatLayer l) (filter (\<lambda>l. \<not> is_CircleMarker l) (layers m))"
        by (simp only: m1(2))
      then show ?thesis by (simp add: conj_commute)
    qed
    have "render_twice renderBuildingsOnMap w md1 md2 = Inr w2"
      by (simp add: render_twice_def w1 w2(1))
    moreover have "filter is_CircleMarker (map_layers w2) = map circleMarker ms2"
      by (simp add: w2(2))
    moreover have "filter (\<lambda>l. \<not> is_CircleMarker l \<and> \<not> is_HeatLayer l) (map_layers w2)
        = filter (\<lambda>l. \<not> is_CircleMarker l \<and> \<not> is_HeatLayer l) (layers m)"
      using keep by (simp add: w2(2) circleMarker_def)
    ultimately show ?thesis by blast
  qed
  have b: "\<exists>w2. render_twice renderConsumptionHeatmap w hmd1 hmd2 = Inr w2 \<and>
            filter is_CircleMarker (map_layers w2) = [] \<and>
            filter is_HeatLayer (map_layers w2) = (if ps2 = [] then [] else [heatLayer ps2]) \<and>
            filter (\<lambda>l. \<not> is_CircleMarker l \<and> \<not> is_HeatLayer l) (map_layers w2)
              = filter (\<lambda>l. \<not> is_CircleMarker l \<and> \<not> is_HeatLayer l) (layers m)"
    if h: "map_widget (state w) = Some m \<and> heatmap_points hmd2 = Some ps2"
  proof -
    obtain w1 where w1: "renderConsumptionHeatmap w (Some hmd1) = Inr w1"
      using render_twice_total(2) by blast
    obtain m1 where m1: "map_widget (state w1) = Some m1"
      "filter (\<lambda>l. \<not> (is_CircleMarker l \<or> is_HeatLayer l)) (layers m1)
         = filter (\<lambda>l. \<not> (is_CircleMarker l \<or> is_HeatLayer l)) (layers m)"
      using renderConsumptionHeatmap_some_map h w1 by blast
    obtain w2 where w2: "renderConsumptionHeatmap w1 (Some hmd2) = Inr w2"
      "map_layers w2 = filter (\<lambda>l. \<not> (is_CircleMarker l \<or> is_HeatLayer l)) (layers m1)
          @ (if ps2 = [] then [] else [heatLayer ps2])"
      using renderConsumptionHeatmap_layers m1(1) h by blast
    have "render_twice renderConsumptionHeatmap w hmd1 hmd2 = Inr w2"
      by (simp add: render_twice_def w1 w2(1))
    moreover have "filter is_CircleMarker (map_layers w2) = []"
      by (auto simp: w2(2) heatLayer_def filter_empty_conv)
    moreover have "filter is_HeatLayer (map_layers w2) = (if ps2 = [] then [] else [heatLayer ps2])"
      by (auto simp: w2(2) heatLayer_def filter_empty_conv)
    moreover have "filter (\<lambda>l. \<not> is_CircleMarker l \<and> \<not> is_HeatLayer l) (map_layers w2)
        = filter (\<lambda>l. \<not> is_CircleMarker l \<and> \<not> is_HeatLayer l) (layers m)"
      using m1(2) by (simp add: w2(2) heatLayer_def)
    ultimately show ?thesis by blast
  qed
  have c: "renderBuildingsOnMap w (Some md) = Inr w" if "markers md = None"
    using that by (simp add: renderBuildingsOnMap_def split: option.splits)
  have d: "renderConsumptionHeatmap w (Some hmd) = Inr w" if "heatmap_points hmd = None"
    using that by (simp add: renderConsumptionHeatmap_def split: option.splits)
  have e: "renderPlotlyChart elementId c2 (renderPlotlyChart elementId c1 w)
      = renderPlotlyChart elementId c2 w"
    by (simp add: renderPlotlyChart_def Let_def split: option.splits)
  show ?thesis using a b c d e by blast
qed

theorem second_render_replaces_first_witness:
  "map_widget (state buildings_page) = Some osm_map \<and> markers one_building = Some [kl_tower] \<and>
   heatmap_points one_hot_spot = Some [hot_spot] \<and>
   layers_after (render_twice renderBuildingsOnMap buildings_page one_building one_building)
     = [TileLayer ''openstreetmap'', circleMarker kl_tower] \<and>
   layers_after (render_twice renderConsumptionHeatmap buildings_page one_hot_spot one_hot_spot)
     = [TileLayer ''openstreetmap'', heatLayer [hot_spot]] \<and>
   markers no_markers = None \<and>
   renderBuildingsOnMap buildings_page (Some no_markers) = Inr buildings_page \<and>
   heatmap_points no_points = None \<and>
   renderConsumptionHeatmap buildings_page (Some no_points) = Inr buildings_page"
proof -
  note t = second_render_replaces_first
    [where w = buildings_page and m = osm_map and ?md1.0 = one_building and ?md2.0 = one_building
      and ?ms2.0 = "[kl_tower]" and ?hmd1.0 = one_hot_spot and ?hmd2.0 = one_hot_spot
      and ?ps2.0 = "[hot_spot]" and md = no_markers and hmd = no_points]
  have h: "map_widget (state buildings_page) = Some osm_map" "markers one_building = Some [kl_tower]"
    "heatmap_points one_hot_spot = Some [hot_spot]" "markers no_markers = None"
    "heatmap_points no_points = None"
    by (simp_all add: buildings_page_def initial_state_def one_building_def one_hot_spot_def
        no_markers_def no_points_def)
  have n: "renderBuildingsOnMap buildings_page (Some no_markers) = Inr buildings_page"
    "renderConsumptionHeatmap buildings_page (Some no_points) = Inr buildings_page"
    using t h by blast+
  have a: "layers_after (render_twice renderBuildingsOnMap buildings_page one_building one_building)
     = [TileLayer ''openstreetmap'', circleMarker kl_tower]"
    by (simp add: layers_after_def render_twice_def renderBuildingsOnMap_def buildings_page_def
        initial_state_def osm_map_def one_building_def map_layers_def Let_def circleMarker_def)
  have b: "layers_after (render_twice renderConsumptionHeatmap buildings_page one_hot_spot one_hot_spot)
     = [TileLayer ''openstreetmap'', heatLayer [hot_spot]]"
    by (simp add: layers_after_def render_twice_def renderConsumptionHeatmap_def buildings_page_def
        initial_state_def osm_map_def one_hot_spot_def map_layers_def Let_def heatLayer_def)
  show ?thesis using h n a b by simp
qed

text \<open>
  The claim as written fails twice. A second payload without \<open>markers\<close> leaves the
  markers of the first call on the map. And \<open>renderBuildingsOnMap\<close> removes circle
  markers only: a heat layer drawn earlier is still on the map after two calls.
\<close>

theorem render_twice_leaves_old_layers_counterexample:
  "layers_after (render_twice renderBuildingsOnMap buildings_page one_building no_markers)
     = [TileLayer ''openstreetmap'', circleMarker kl_tower] \<and>
   layers_after (render_twice renderBuildingsOnMap heatmap_page one_building one_building)
     = [TileLayer ''openstreetmap'', heatLayer [hot_spot], circleMarker kl_tower]"
  by (simp add: layers_after_def render_twice_def renderBuildingsOnMap_def buildings_page_def
      heatmap_page_def initial_state_def osm_map_def one_building_def no_markers_def
      map_layers_def Let_def circleMarker_def heatLayer_def)

section \<open>The module registry\<close>







section \<open>Importing settings\<close>

lemma distinct_mappings: "distinct (map fst mappings)"
  by (simp add: mappings_def)

lemma map_of_mappings:
  assumes "(elementId, key) \<in> set mappings"
  shows "map_of mappings elementId = Some key"
  using assms distinct_mappings by (intro map_of_is_SomeI) simp_all

lemma check_radio_other:
  assumes "i \<noteq> r" "map_option el_type (d i) \<noteq> Some ''radio''"
  shows "check_radio r d i = d i"
  using assms by (cases "d i") (auto simp: check_radio_def split: option.splits)

lemma el_type_check_radio:
  "map_option el_type (check_radio r d i) = map_option el_type (d i)"
  by (cases "d i") (auto simp: check_radio_def split: option.splits)


subsection \<open>The first statement\<close>

text \<open>
  The page after the first statement, at a control that is no radio button and that the
  theme radio is not.
\<close>

lemma apply_theme_dom:
  assumes "setting settings ''theme'' = theme"
    and "theme_radio B E settings \<noteq> Some i"
    and "map_option el_type (dom w i) \<noteq> Some ''radio''"
  shows "dom (snd (apply_theme B E theme w)) i = dom w i"
proof (cases theme)
  case None
  then show ?thesis by (simp add: apply_theme_def)
next
  case (Some th)
  show ?thesis
  proof (cases "truthy_json th")
    case False
    then show ?thesis using Some by (simp add: apply_theme_def)
  next
    case True
    show ?thesis
    proof (cases "json_text E th")
      case (Inl e)
      then show ?thesis using Some True by (simp add: apply_theme_def)
    next
      case (Inr t)
      show ?thesis
      proof (cases "querySelector B (theme_selector t)")
        case (Inl e)
        then show ?thesis using Some True Inr by (simp add: apply_theme_def Let_def)
      next
        case q: (Inr found)
        show ?thesis
        proof (cases found)
          case None
          then show ?thesis using Some True Inr q by (simp add: apply_theme_def Let_def)
        next
          case r: (Some r)
          have "theme_radio B E settings = Some r"
            using assms(1) Some True Inr q r by (simp add: theme_radio_def)
          with assms(2) have "i \<noteq> r" by auto
          from check_radio_other [of i r "dom w", OF this assms(3)] show ?thesis
            using Some True Inr q r by (simp add: apply_theme_def Let_def)
        qed
      qed
    qed
  qed
qed

lemma apply_theme_el_type:
  "map_option el_type (dom (snd (apply_theme B E theme w)) i) = map_option el_type (dom w i)"
  by (simp add: apply_theme_def Let_def el_type_check_radio split: option.splits sum.splits)


lemma apply_theme_accepted:
  assumes "setting settings ''theme'' = theme" "theme_accepted B E settings"
  shows "fst (apply_theme B E theme w) = None"
  using assms
  by (auto simp: apply_theme_def theme_accepted_def Let_def split: option.splits sum.splits if_splits)

subsection \<open>The loop over the mappings\<close>

lemma apply_mapping_other:
  assumes "apply_mapping B E settings m w = Inr w'" "fst m \<noteq> i"
  shows "dom w' i = dom w i"
  using assms by (auto simp: apply_mapping_def split: option.splits if_splits sum.splits)

lemma apply_mapping_missing:
  assumes "apply_mapping B E settings m w = Inr w'" "setting settings (snd m) = None"
  shows "w' = w"
  using assms by (auto simp: apply_mapping_def split: option.splits)

text \<open>However the loop ends, a control whose key is missing is as before.\<close>

lemma apply_mappings_frame:
  assumes "\<forall>m \<in> set ms. fst m = i \<longrightarrow> setting settings (snd m) = None"
  shows "dom (snd (apply_mappings B E settings ms w)) i = dom w i"
  using assms
proof (induction ms arbitrary: w)
  case Nil
  then show ?case by simp
next
  case (Cons m ms)
  show ?case
  proof (cases "apply_mapping B E settings m w")
    case (Inl e)
    then show ?thesis by simp
  next
    case (Inr w')
    have same: "dom w' i = dom w i"
    proof (cases "fst m = i")
      case True
      with Cons.prems have "setting settings (snd m) = None" by simp
      from apply_mapping_missing [OF Inr this] show ?thesis by simp
    next
      case False
      from apply_mapping_other [OF Inr this] show ?thesis .
    qed
    from Cons.prems have "\<forall>m \<in> set ms. fst m = i \<longrightarrow> setting settings (snd m) = None"
      by simp
    from Cons.IH [OF this, of w'] same Inr show ?thesis by simp
  qed
qed


lemma assign_value_text:
  assumes "has_text E v" "el_type el \<noteq> ''file''"
  shows "assign_value B E el v = Inr (el\<lparr>el_value := value_after_set B el v\<rparr>)"
  using assms by (auto simp: assign_value_def has_text_def split: sum.splits)

lemma apply_mapping_returns:
  assumes "case setting settings (snd m) of None \<Rightarrow> True | Some v \<Rightarrow> has_text E v"
    and "map_option el_type (dom w (fst m)) \<noteq> Some ''file''"
  shows "\<exists>w'. apply_mapping B E settings m w = Inr w' \<and>
           (\<forall>j. dom w' j = (if j = fst m
                            then map_option (updated_control B settings (snd m)) (dom w j)
                            else dom w j))"
proof (cases "dom w (fst m)")
  case None
  then show ?thesis by (simp add: apply_mapping_def)
next
  case (Some el)
  show ?thesis
  proof (cases "setting settings (snd m)")
    case None
    then show ?thesis using Some by (simp add: apply_mapping_def updated_control_def)
  next
    case v: (Some v)
    show ?thesis
    proof (cases "el_type el = ''checkbox''")
      case True
      then show ?thesis using Some v by (simp add: apply_mapping_def updated_control_def)
    next
      case False
      from assms Some v have "has_text E v" "el_type el \<noteq> ''file''" by simp_all
      from assign_value_text [OF this, of B] show ?thesis
        using Some v False by (simp add: apply_mapping_def updated_control_def)
    qed
  qed
qed

text \<open>
  When every value has a text and no control is a file input, the loop returns and has
  passed each control through its mapping.
\<close>

lemma apply_mappings_returns:
  assumes "distinct (map fst ms)"
    and "list_all (\<lambda>m. case setting settings (snd m) of None \<Rightarrow> True | Some v \<Rightarrow> has_text E v) ms"
    and "list_all (\<lambda>m. map_option el_type (dom w (fst m)) \<noteq> Some ''file'') ms"
  shows "fst (apply_mappings B E settings ms w) = None \<and>
         (\<forall>i. dom (snd (apply_mappings B E settings ms w)) i
            = (case map_of ms i of
                 None \<Rightarrow> dom w i
               | Some key \<Rightarrow> map_option (updated_control B settings key) (dom w i)))"
  using assms
proof (induction ms arbitrary: w)
  case Nil
  then show ?case by simp
next
  case (Cons m ms)
  obtain j k where m: "m = (j, k)" by (cases m)
  from Cons.prems(1) have d: "distinct (map fst ms)" and j: "j \<notin> fst ` set ms"
    by (simp_all add: m)
  from Cons.prems(2,3)
  have here: "case setting settings (snd m) of None \<Rightarrow> True | Some v \<Rightarrow> has_text E v"
    "map_option el_type (dom w (fst m)) \<noteq> Some ''file''"
    by simp_all
  from apply_mapping_returns [OF here, of B]
  obtain w' where w': "apply_mapping B E settings m w = Inr w'"
    and dw': "\<And>i. dom w' i = (if i = j then map_option (updated_control B settings k) (dom w i)
                            else dom w i)"
    by (auto simp: m)
  have files: "list_all (\<lambda>m. map_option el_type (dom w' (fst m)) \<noteq> Some ''file'') ms"
  proof -
    have same: "map_option el_type (dom w' (fst x)) = map_option el_type (dom w (fst x))"
      if "x \<in> set ms" for x
    proof -
      from that j have "fst x \<noteq> j" by auto
      then show ?thesis by (simp add: dw')
    qed
    from Cons.prems(3)
    have old: "list_all (\<lambda>m. map_option el_type (dom w (fst m)) \<noteq> Some ''file'') ms"
      by simp
    show ?thesis unfolding list_all_iff
    proof
      fix x assume x: "x \<in> set ms"
      from old x have "map_option el_type (dom w (fst x)) \<noteq> Some ''file''"
        unfolding list_all_iff by blast
      with same [OF x] show "map_option el_type (dom w' (fst x)) \<noteq> Some ''file''"
        by simp
    qed
  qed
  from Cons.prems(2)
  have texts: "list_all (\<lambda>m. case setting settings (snd m) of None \<Rightarrow> True | Some v \<Rightarrow> has_text E v) ms"
    by simp
  note IH = Cons.IH [OF d texts files]
  have run: "apply_mappings B E settings (m # ms) w = apply_mappings B E settings ms w'"
    by (simp add: w')
  have at: "dom (snd (apply_mappings B E settings ms w')) i
      = (case map_of (m # ms) i of
           None \<Rightarrow> dom w i
         | Some key \<Rightarrow> map_option (updated_control B settings key) (dom w i))" for i
  proof (cases "i = j")
    case True
    with j have "map_of ms i = None" by (simp add: map_of_eq_None_iff)
    then show ?thesis using IH True by (simp add: m dw')
  next
    case False
    then show ?thesis using IH by (simp add: m dw' split: option.splits)
  qed
  show ?case unfolding run using IH at by blast
qed

subsection \<open>The whole call\<close>


lemma setting_theme:
  assumes "json_get settings ''theme'' = Inr theme"
  shows "setting settings ''theme'' = theme"
  using assms by (simp add: setting_def)

lemma applySettings_frame:
  assumes m: "(elementId, key) \<in> set mappings"
    and missing: "setting settings key = None"
    and radio: "theme_radio B E settings \<noteq> Some elementId"
    and nr: "map_option el_type (dom w elementId) \<noteq> Some ''radio''"
  shows "dom (snd (applySettings B E settings w)) elementId = dom w elementId"
proof (cases "json_get settings ''theme''")
  case (Inl e)
  then show ?thesis by (simp add: applySettings_def)
next
  case (Inr theme)
  obtain x w1 where t: "apply_theme B E theme w = (x, w1)" by (cases "apply_theme B E theme w")
  from apply_theme_dom [OF setting_theme [OF Inr] radio nr] t
  have w1: "dom w1 elementId = dom w elementId" by simp
  show ?thesis
  proof (cases x)
    case (Some e)
    then show ?thesis using Inr t w1 by (simp add: applySettings_def)
  next
    case None
    have "\<forall>mp \<in> set mappings. fst mp = elementId \<longrightarrow> setting settings (snd mp) = None"
    proof (intro ballI impI)
      fix mp assume mp: "mp \<in> set mappings" "fst mp = elementId"
      from mp(1) have "(fst mp, snd mp) \<in> set mappings" by simp
      then have "(elementId, snd mp) \<in> set mappings" by (simp only: mp(2))
      from map_of_mappings [OF this] map_of_mappings [OF m] have "snd mp = key" by simp
      with missing show "setting settings (snd mp) = None" by simp
    qed
    from apply_mappings_frame [OF this, of B E w1] show ?thesis
      using Inr t None w1 by (simp add: applySettings_def)
  qed
qed

lemma applySettings_returns:
  assumes nn: "settings \<noteq> JsonNull"
    and acc: "theme_accepted B E settings"
    and texts: "values_have_text E settings"
    and files: "no_file_input w"
  shows "fst (applySettings B E settings w) = None \<and>
         ((elementId, key) \<in> set mappings \<and> theme_radio B E settings \<noteq> Some elementId \<and>
          map_option el_type (dom w elementId) \<noteq> Some ''radio'' \<longrightarrow>
            dom (snd (applySettings B E settings w)) elementId
              = map_option (updated_control B settings key) (dom w elementId))"
proof -
  from nn obtain theme where g: "json_get settings ''theme'' = Inr theme"
    by (cases settings) simp_all
  obtain x w1 where t: "apply_theme B E theme w = (x, w1)" by (cases "apply_theme B E theme w")
  from apply_theme_accepted [OF setting_theme [OF g] acc, of w] t have x: "x = None" by simp
  have run: "applySettings B E settings w = apply_mappings B E settings mappings w1"
    using g t x by (simp add: applySettings_def)
  have "list_all (\<lambda>m. map_option el_type (dom w1 (fst m)) \<noteq> Some ''file'') mappings"
    using files apply_theme_el_type [of B E theme w] t by (simp add: no_file_input_def)
  from apply_mappings_returns [OF distinct_mappings texts [unfolded values_have_text_def] this, of B]
  have ok: "fst (apply_mappings B E settings mappings w1) = None"
    and at: "\<And>i. dom (snd (apply_mappings B E settings mappings w1)) i
      = (case map_of mappings i of
           None \<Rightarrow> dom w1 i
         | Some key \<Rightarrow> map_option (updated_control B settings key) (dom w1 i))"
    by blast+
  have "dom (snd (applySettings B E settings w)) elementId
      = map_option (updated_control B settings key) (dom w elementId)"
    if h: "(elementId, key) \<in> set mappings \<and> theme_radio B E settings \<noteq> Some elementId \<and>
      map_option el_type (dom w elementId) \<noteq> Some ''radio''"
  proof -
    from h have m: "(elementId, key) \<in> set mappings"
      and radio: "theme_radio B E settings \<noteq> Some elementId"
      and nr: "map_option el_type (dom w elementId) \<noteq> Some ''radio''"
      by blast+
    from apply_theme_dom [OF setting_theme [OF g] radio nr] t
    have "dom w1 elementId = dom w elementId" by simp
    then show ?thesis by (simp add: run at map_of_mappings [OF m])
  qed
  then show ?thesis using ok by (simp add: run)
qed

text \<open>
  C8, as far as it holds. Whatever the settings value is and however the call ends, a
  mapped control whose key is missing from the settings is left exactly as it was,
  provided that the element which the browser finds for the theme selector is not that
  control, and that the control is no radio button (checking the theme radio unchecks
  the others of its group). The call returns normally when the settings value is not
  \<open>null\<close>, the theme is missing or falsy or has a text that makes a selector the browser
  takes, every value given for a mapped key has a text, and no mapped control is a file
  input; under the same provisos on the control, each control then holds what its
  mapping makes of the imported value.
\<close>

theorem applySettings_keeps_missing_keys:
  "((elementId, key) \<in> set mappings \<and> setting settings key = None \<and>
    theme_radio B E settings \<noteq> Some elementId \<and>
    map_option el_type (dom w elementId) \<noteq> Some ''radio'' \<longrightarrow>
      dom (snd (applySettings B E settings w)) elementId = dom w elementId) \<and>
   (settings \<noteq> JsonNull \<and> theme_accepted B E settings \<and> values_have_text E settings \<and>
    no_file_input w \<longrightarrow>
      fst (applySettings B E settings w) = None \<and>
      ((elementId, key) \<in> set mappings \<and> theme_radio B E settings \<noteq> Some elementId \<and>
       map_option el_type (dom w elementId) \<noteq> Some ''radio'' \<longrightarrow>
         dom (snd (applySettings B E settings w)) elementId
           = map_option (updated_control B settings key) (dom w elementId)))"
  using applySettings_frame [of elementId key settings B E w]
    applySettings_returns [of settings B E w elementId key]
  by blast

theorem applySettings_keeps_missing_keys_witness:
  "(''ollama-url'', ''ollamaUrl'') \<in> set mappings \<and> setting partial_settings ''ollamaUrl'' = None \<and>
   theme_radio settings_tab_browser example_engine partial_settings = Some ''theme-light'' \<and>
   map_option el_type (dom settings_page ''ollama-url'') = Some ''url'' \<and>
   dom (snd (applySettings settings_tab_browser example_engine partial_settings settings_page)) ''ollama-url''
     = Some (blank_element\<lparr>el_type := ''url'', el_value := ''http://localhost:11434''\<rparr>) \<and>
   partial_settings \<noteq> JsonNull \<and>
   theme_accepted settings_tab_browser example_engine partial_settings \<and>
   values_have_text example_engine partial_settings \<and> no_file_input settings_page \<and>
   fst (applySettings settings_tab_browser example_engine partial_settings settings_page) = None \<and>
   (''language-select'', ''language'') \<in> set mappings \<and>
   map_option el_type (dom settings_page ''language-select'') = Some ''select-one'' \<and>
   dom (snd (applySettings settings_tab_browser example_engine partial_settings settings_page))
       ''language-select''
     = Some (blank_element\<lparr>el_type := ''select-one'', el_value := ''en''\<rparr>)"
proof -
  let ?B = settings_tab_browser
  let ?run = "applySettings ?B example_engine partial_settings settings_page"
  have m: "(''ollama-url'', ''ollamaUrl'') \<in> set mappings"
    "(''language-select'', ''language'') \<in> set mappings"
    by (simp_all add: mappings_def)
  have s: "setting partial_settings ''ollamaUrl'' = None"
    "setting partial_settings ''theme'' = Some (JsonStr ''light'')"
    "setting partial_settings ''language'' = Some (JsonStr ''en'')"
    "partial_settings \<noteq> JsonNull"
    by (simp_all add: setting_def partial_settings_def)
  have q: "querySelector ?B (theme_selector ''light'') = Inr (Some ''theme-light'')"
    by (simp add: settings_tab_browser_def theme_selector_def)
  have r: "theme_radio ?B example_engine partial_settings = Some ''theme-light''"
    "theme_accepted ?B example_engine partial_settings"
    by (simp_all add: theme_radio_def theme_accepted_def s q)
  have ty: "map_option el_type (dom settings_page ''ollama-url'') = Some ''url''"
    "map_option el_type (dom settings_page ''language-select'') = Some ''select-one''"
    by (simp_all add: settings_page_def blank_element_def)
  have v: "values_have_text example_engine partial_settings"
    by (simp add: values_have_text_def mappings_def setting_def partial_settings_def has_text_def)
  have f: "no_file_input settings_page"
    by (simp add: no_file_input_def mappings_def settings_page_def blank_element_def)
  have side: "theme_radio ?B example_engine partial_settings \<noteq> Some ''ollama-url''"
    "theme_radio ?B example_engine partial_settings \<noteq> Some ''language-select''"
    "map_option el_type (dom settings_page ''ollama-url'') \<noteq> Some ''radio''"
    "map_option el_type (dom settings_page ''language-select'') \<noteq> Some ''radio''"
    by (simp_all add: r ty)
  note t1 = applySettings_keeps_missing_keys
    [where B = ?B and E = example_engine and settings = partial_settings
      and w = settings_page and elementId = "''ollama-url''" and key = "''ollamaUrl''"]
  note t2 = applySettings_keeps_missing_keys
    [where B = ?B and E = example_engine and settings = partial_settings
      and w = settings_page and elementId = "''language-select''" and key = "''language''"]
  have a: "dom (snd ?run) ''ollama-url'' = dom settings_page ''ollama-url''"
    using t1 m(1) s(1) side(1,3) by blast
  have b: "fst ?run = None"
    using t1 s(4) r(2) v f by blast
  have c: "dom (snd ?run) ''language-select''
     = map_option (updated_control ?B partial_settings ''language'')
         (dom settings_page ''language-select'')"
    using t2 m(2) s(4) r(2) v f side(2,4) by blast
  have a': "dom settings_page ''ollama-url''
     = Some (blank_element\<lparr>el_type := ''url'', el_value := ''http://localhost:11434''\<rparr>)"
    by (simp add: settings_page_def)
  have c': "map_option (updated_control ?B partial_settings ''language'')
         (dom settings_page ''language-select'')
     = Some (blank_element\<lparr>el_type := ''select-one'', el_value := ''en''\<rparr>)"
    by (simp add: settings_page_def updated_control_def s settings_tab_browser_def blank_element_def)
  show ?thesis using m s(1) s(4) r ty v f b by (simp add: a a' c c')
qed

text \<open>
  The claim as written fails on both counts. The call can raise: a theme holding a
  quotation mark is put into the selector unescaped, \<open>querySelector\<close> rejects it and
  nothing catches the error inside \<open>applySettings\<close>; the settings file \<open>null\<close> raises at
  the first property read; and a value that is an object with a key \<open>toString\<close> raises
  when the \<open>value\<close> setter converts it. And a control whose key is missing can change: the
  selector made from the injected theme finds the sounds checkbox, which is then checked
  although the file has no key \<open>sounds\<close>.
\<close>

theorem applySettings_raises_counterexample:
  "fst (applySettings settings_tab_browser example_engine (JsonObj [(''theme'', JsonStr [CHR 0x22])])
      settings_page) = Some SyntaxError \<and>
   fst (applySettings settings_tab_browser example_engine JsonNull settings_page) = Some TypeError \<and>
   fst (applySettings settings_tab_browser example_engine
      (JsonObj [(''language'', JsonObj [(''toString'', JsonNum 1)])]) settings_page) = Some TypeError \<and>
   (''sounds-toggle'', ''sounds'') \<in> set mappings \<and>
   setting (JsonObj [(''theme'', JsonStr injected_theme)]) ''sounds'' = None \<and>
   map_option checked (dom settings_page ''sounds-toggle'') = Some False \<and>
   map_option checked
     (dom (snd (applySettings settings_tab_browser example_engine
        (JsonObj [(''theme'', JsonStr injected_theme)]) settings_page)) ''sounds-toggle'') = Some True"
proof -
  let ?B = settings_tab_browser
  let ?inj = "JsonObj [(''theme'', JsonStr injected_theme)]"
  have a: "fst (applySettings ?B example_engine (JsonObj [(''theme'', JsonStr [CHR 0x22])])
      settings_page) = Some SyntaxError"
    by (simp add: applySettings_def apply_theme_def settings_tab_browser_def theme_selector_def Let_def)
  have b: "fst (applySettings ?B example_engine JsonNull settings_page) = Some TypeError"
    by (simp add: applySettings_def)
  have c: "fst (applySettings ?B example_engine
      (JsonObj [(''language'', JsonObj [(''toString'', JsonNum 1)])]) settings_page) = Some TypeError"
    by (simp add: applySettings_def apply_theme_def mappings_def apply_mapping_def setting_def
        settings_page_def blank_element_def assign_value_def)
  have q: "querySelector ?B (theme_selector injected_theme) = Inr (Some ''sounds-toggle'')"
    by (simp add: settings_tab_browser_def theme_selector_def injected_theme_def)
  obtain x w1 where t: "apply_theme ?B example_engine (Some (JsonStr injected_theme)) settings_page
      = (x, w1)"
    by (cases "apply_theme ?B example_engine (Some (JsonStr injected_theme)) settings_page")
  have ne: "injected_theme \<noteq> []" by (simp add: injected_theme_def)
  have x: "x = None" and w1: "dom w1 = check_radio ''sounds-toggle'' (dom settings_page)"
    using t q ne by (auto simp: apply_theme_def Let_def)
  have run: "applySettings ?B example_engine ?inj settings_page
      = apply_mappings ?B example_engine ?inj mappings w1"
    using t x by (simp add: applySettings_def)
  have none: "\<forall>m \<in> set mappings. fst m = ''sounds-toggle'' \<longrightarrow> setting ?inj (snd m) = None"
    by (simp add: mappings_def setting_def)
  have "dom (snd (applySettings ?B example_engine ?inj settings_page)) ''sounds-toggle''
      = check_radio ''sounds-toggle'' (dom settings_page) ''sounds-toggle''"
    unfolding run using apply_mappings_frame [OF none, of ?B example_engine w1] by (simp add: w1)
  then have d: "map_option checked
     (dom (snd (applySettings ?B example_engine ?inj settings_page)) ''sounds-toggle'') = Some True"
    by (simp add: check_radio_def settings_page_def)
  have e: "(''sounds-toggle'', ''sounds'') \<in> set mappings"
    "setting ?inj ''sounds'' = None"
    "map_option checked (dom settings_page ''sounds-toggle'') = Some False"
    by (simp_all add: mappings_def setting_def settings_page_def blank_element_def)
  show ?thesis using a b c d e by simp
qed

section \<open>Tab contents\<close>






subsection \<open>What the writes leave alone\<close>















subsection \<open>A flagged tab container stays flagged\<close>








subsection \<open>The first activation\<close>






end
